theory Spec2Isabelle
  imports Main "HOL-Library.Char_ord" "HOL-Library.List_Lexorder" "HOL-Library.Multiset"
    "HOL-Library.Sublist" "HOL-Library.Word"
begin

section \<open>Errors and results\<close>

text \<open>
  A Go \<^verbatim>\<open>error\<close> value. \<^verbatim>\<open>errors.New(m)\<close> is \<open>errors_New m\<close>;
  \<^verbatim>\<open>fmt.Errorf(f, args...)\<close> is \<open>Errorf f args\<close>, the format kept apart from its
  arguments (\<open>Arg_w\<close> is an error wrapped by \<^verbatim>\<open>%w\<close>); \<open>Extern m\<close> is an error made
  by a library or a collaborator outside these files.
\<close>

datatype error = errors_New string | Errorf string "fmt_arg list" | Extern string
and fmt_arg = Arg_s string | Arg_d int | Arg_w error

text \<open>
  What a call of a function with a \<^verbatim>\<open>(T, error)\<close> or \<^verbatim>\<open>error\<close> result does:
  it returns a value and a nil error (\<open>Ok\<close>), returns an error (\<open>Err\<close>), or panics on a
  nil pointer (\<open>Panic\<close>). Nothing in these files recovers from a panic.
\<close>

datatype 'a result = Ok 'a | Err error | Panic

section \<open>net/url\<close>

text \<open>
  \<^verbatim>\<open>url.URL\<close> with the fields these files read and write. Parsing and printing are the
  standard library's: they are parameters of the model (\<open>net_url\<close>), so every theorem that
  quantifies over \<open>L\<close> holds for whatever \<^verbatim>\<open>url.Parse\<close>, \<^verbatim>\<open>URL.String\<close> and
  \<^verbatim>\<open>URL.Query\<close> do.
\<close>

record URL =
  Scheme :: string
  Host :: string
  Path :: string
  RawQuery :: string
  Fragment :: string

text \<open>\<^verbatim>\<open>url.Values\<close>, a \<^verbatim>\<open>map[string][]string\<close>: an association list with distinct keys.\<close>

type_synonym Values = "(string \<times> string list) list"

record net_url =
  url_Parse :: "string \<Rightarrow> error + URL"
  URL_String :: "URL \<Rightarrow> string"
  URL_Query :: "URL \<Rightarrow> Values"

section \<open>config/config.go\<close>

definition GrantTypeRefreshToken :: string where
  "GrantTypeRefreshToken = ''refresh_token''"

definition GrantTypeClientCredentials :: string where
  "GrantTypeClientCredentials = ''client_credentials''"

definition GrantTypeAuthorizationCode :: string where
  "GrantTypeAuthorizationCode = ''authorization_code''"

text \<open>\<^verbatim>\<open>30 * time.Second\<close>, a \<^verbatim>\<open>time.Duration\<close> in nanoseconds.\<close>

definition DefaultRequestTimeout :: int where
  "DefaultRequestTimeout = 30 * 1000000000"

definition DefaultUserAgent :: string where
  "DefaultUserAgent = ''Go-CF-Client/3.0''"

definition DefaultClientID :: string where
  "DefaultClientID = ''cf''"

definition DefaultSSHClientID :: string where
  "DefaultSSHClientID = ''ssh-proxy''"

record Token =
  AccessToken :: string
  TokenType :: string
  RefreshToken :: string
  Expiry :: int

record tls_Config =
  InsecureSkipVerify :: bool

text \<open>
  The dynamic type of \<^verbatim>\<open>http.Client.Transport\<close>: nil, a \<^verbatim>\<open>*http.Transport\<close> (with its
  \<^verbatim>\<open>TLSClientConfig\<close>, nil or not), an \<^verbatim>\<open>*oauth2.Transport\<close> (with its \<^verbatim>\<open>Base\<close>), or
  another round tripper.
\<close>

datatype RoundTripper =
  RoundTripper_nil
  | http_Transport "tls_Config option"
  | oauth2_Transport RoundTripper
  | RoundTripper_other nat

datatype CheckRedirect_func = CheckRedirect_nil | internal_CheckRedirect | CheckRedirect_other nat

record http_Client =
  Transport :: RoundTripper
  CheckRedirect :: CheckRedirect_func
  Timeout :: int

text \<open>Pointer fields (\<^verbatim>\<open>*oauth2.Token\<close>, \<^verbatim>\<open>*http.Client\<close>) are options: \<open>None\<close> is nil.\<close>

record Config =
  apiEndpointURL :: string
  loginEndpointURL :: string
  uaaEndpointURL :: string
  sshOAuthClient :: string
  username :: string
  password :: string
  clientID :: string
  clientSecret :: string
  grantType :: string
  origin :: string
  scopes :: "string list"
  oAuthToken :: "Token option"
  httpClient :: "http_Client option"
  httpAuthClient :: "http_Client option"
  skipTLSValidation :: bool
  requestTimeout :: int
  userAgent :: string

text \<open>\<^verbatim>\<open>resource.Root\<close>, as far as \<^verbatim>\<open>discoverAuthConfig\<close> reads it.\<close>

record Root =
  Links_Login_Href :: string
  Links_Uaa_Href :: string
  Links_AppSSH_Meta_OauthClient :: string

record Request =
  Method :: string
  URL :: string

record Response =
  StatusCode :: int
  Body :: string

text \<open>\<^verbatim>\<open>oauth2.Config\<close> and \<^verbatim>\<open>clientcredentials.Config\<close>, as the closures fill them.\<close>

record oauth2_Config =
  oauth2_ClientID :: string
  oauth2_ClientSecret :: string
  oauth2_Scopes :: "string list"
  Endpoint_AuthURL :: string
  Endpoint_TokenURL :: string

record clientcredentials_Config =
  cc_ClientID :: string
  cc_ClientSecret :: string
  cc_TokenURL :: string

text \<open>
  A token source, by the call that made it: \<^verbatim>\<open>clientcredentials.Config.TokenSource(ctx)\<close>
  or \<^verbatim>\<open>oauth2.Config.TokenSource(ctx, token)\<close>. The \<^verbatim>\<open>http.Client\<close> is the one put into
  the context under \<^verbatim>\<open>oauth2.HTTPClient\<close>.
\<close>

datatype TokenSource =
  clientcredentials_TokenSource clientcredentials_Config "http_Client option"
  | oauth2_TokenSource oauth2_Config "Token option" "http_Client option"

text \<open>
  What the configuration code asks of the outside, in the order it asks: an HTTP request sent
  with a client, the construction of the authenticated client, a password grant.
\<close>

datatype event =
  Ev_Do http_Client Request
  | Ev_NewAuthenticatedClient "http_Client option"
  | Ev_PasswordCredentialsToken oauth2_Config string string

text \<open>
  The collaborators of config.go that are not in these files: the \<^verbatim>\<open>internal/http\<close> and
  \<^verbatim>\<open>internal/path\<close> packages of the repository, \<^verbatim>\<open>net/http\<close> and \<^verbatim>\<open>oauth2\<close>. Each is
  a parameter. \<open>Do\<close> is \<^verbatim>\<open>http.Client.Do\<close> on a client that is not nil.
  \<open>PasswordCredentialsToken\<close> gets the client that \<^verbatim>\<open>CreateOAuth2TokenSource\<close> puts into
  the context, nil or not, and its outcome is a \<open>result\<close>: \<^verbatim>\<open>oauth2\<close> sends the token
  request with that client, and panics when it is nil.
\<close>

record world =
  path_Join :: "string \<Rightarrow> string \<Rightarrow> string"
  NewRequestWithContext :: "string \<Rightarrow> string \<Rightarrow> error + Request"
  Do :: "http_Client \<Rightarrow> Request \<Rightarrow> error + Response"
  IsStatusSuccess :: "int \<Rightarrow> bool"
  DecodeError :: "Response \<Rightarrow> error"
  DecodeBody :: "Response \<Rightarrow> error + Root"
  NewAuthenticatedClient :: "http_Client option \<Rightarrow> Config \<Rightarrow> http_Client option \<times> error option"
  PasswordCredentialsToken :: "oauth2_Config \<Rightarrow> http_Client option \<Rightarrow> string \<Rightarrow> string \<Rightarrow> Token result"

text \<open>An \<^verbatim>\<open>Option\<close>: it may change the config it is given and may return an error.\<close>

type_synonym Option = "Config \<Rightarrow> error option \<times> Config"

definition HTTPClient :: "Config \<Rightarrow> http_Client option" where
  "HTTPClient c = httpClient c"

definition HTTPAuthClient :: "Config \<Rightarrow> http_Client option" where
  "HTTPAuthClient c = httpClient c"

definition SSHOAuthClientID :: "Config \<Rightarrow> string" where
  "SSHOAuthClientID c = sshOAuthClient c"

definition UserAgent :: "Config \<Rightarrow> string" where
  "UserAgent c = userAgent c"

definition Validate :: "Config \<Rightarrow> error option" where
  "Validate c =
     (if clientID c = [] \<and> username c = [] \<and> oAuthToken c = None
      then Some (errors_New ''either client credentials, user credentials, or tokens are required'')
      else if clientID c \<noteq> DefaultClientID \<and> clientSecret c = []
      then Some (errors_New ''client secret is required when using client credentials'')
      else if username c \<noteq> [] \<and> password c = []
      then Some (errors_New ''password is required when using user credentials'')
      else None)"

fun applyOptions :: "Config \<Rightarrow> Option list \<Rightarrow> error option \<times> Config" where
  "applyOptions cfg [] = (None, cfg)"
| "applyOptions cfg (option # options) =
     (case option cfg of
        (Some err, cfg') \<Rightarrow> (Some err, cfg')
      | (None, cfg') \<Rightarrow> applyOptions cfg' options)"

text \<open>
  \<^verbatim>\<open>getHTTPTransport\<close> returns a pointer to the \<^verbatim>\<open>http.Transport\<close> of the client, or nil.
  The transport is given by its \<^verbatim>\<open>TLSClientConfig\<close>; \<open>setHTTPTransport\<close> is the write
  through that pointer.
\<close>

fun getHTTPTransport :: "http_Client \<Rightarrow> tls_Config option option" where
  "getHTTPTransport client =
     (case Transport client of
        http_Transport t \<Rightarrow> Some t
      | oauth2_Transport (http_Transport t) \<Rightarrow> Some t
      | _ \<Rightarrow> None)"

fun setHTTPTransport :: "http_Client \<Rightarrow> tls_Config option \<Rightarrow> http_Client" where
  "setHTTPTransport client t =
     (case Transport client of
        http_Transport _ \<Rightarrow> client\<lparr>Transport := http_Transport t\<rparr>
      | oauth2_Transport (http_Transport _) \<Rightarrow> client\<lparr>Transport := oauth2_Transport (http_Transport t)\<rparr>
      | _ \<Rightarrow> client)"

definition configureHTTPClient :: "Config \<Rightarrow> Config" where
  "configureHTTPClient c =
     (let client0 = (case httpClient c of
                       None \<Rightarrow> \<lparr>Transport = http_Transport None, CheckRedirect = CheckRedirect_nil,
                                 Timeout = 0\<rparr>
                     | Some cl \<Rightarrow> cl);
          client1 = (case getHTTPTransport client0 of
                       None \<Rightarrow> client0
                     | Some t \<Rightarrow>
                         let tlsc = (case t of None \<Rightarrow> \<lparr>InsecureSkipVerify = False\<rparr> | Some x \<Rightarrow> x)
                         in setHTTPTransport client0
                              (Some (tlsc\<lparr>InsecureSkipVerify := skipTLSValidation c\<rparr>)))
      in c\<lparr>httpClient := Some (client1\<lparr>CheckRedirect := internal_CheckRedirect,
                                        Timeout := requestTimeout c\<rparr>)\<rparr>)"

definition createHTTPAuthClient :: "world \<Rightarrow> Config \<Rightarrow> Config result \<times> event list" where
  "createHTTPAuthClient w c =
     (case NewAuthenticatedClient w (httpClient c) c of
        (cl, err) \<Rightarrow>
          (case err of
             None \<Rightarrow> Ok (c\<lparr>httpAuthClient := cl\<rparr>)
           | Some e \<Rightarrow> Err e,
           [Ev_NewAuthenticatedClient (httpClient c)]))"

definition ToURL :: "world \<Rightarrow> Config \<Rightarrow> string \<Rightarrow> string" where
  "ToURL w c urlPath = path_Join w (apiEndpointURL c) urlPath"

definition ToAuthenticateURL :: "world \<Rightarrow> Config \<Rightarrow> string \<Rightarrow> string" where
  "ToAuthenticateURL w c urlPath = path_Join w (uaaEndpointURL c) urlPath"

definition globalAPIRoot :: "world \<Rightarrow> http_Client option \<Rightarrow> string \<Rightarrow> Root result \<times> event list" where
  "globalAPIRoot w hc url =
     (case NewRequestWithContext w ''GET'' url of
        Inl err \<Rightarrow>
          (Err (Errorf ''error occurred while generating the request for the global API root: %w''
                  [Arg_w err]), [])
      | Inr req \<Rightarrow>
          (case hc of
             None \<Rightarrow> (Panic, [])
           | Some cl \<Rightarrow>
               (case Do w cl req of
                  Inl err \<Rightarrow>
                    Err (Errorf ''error executing request, failed during HTTP request send: %w''
                           [Arg_w err])
                | Inr resp \<Rightarrow>
                    if \<not> IsStatusSuccess w (StatusCode resp) then Err (DecodeError w resp)
                    else (case DecodeBody w resp of
                            Inl err \<Rightarrow>
                              Err (Errorf ''failed to decode API root response: %w'' [Arg_w err])
                          | Inr root \<Rightarrow> Ok root),
                [Ev_Do cl req])))"

definition discoverAuthConfig :: "world \<Rightarrow> Config \<Rightarrow> Config result \<times> event list" where
  "discoverAuthConfig w c =
     (if loginEndpointURL c \<noteq> [] \<and> uaaEndpointURL c \<noteq> [] then (Ok c, [])
      else
        (case globalAPIRoot w (httpClient c) (ToURL w c ''/'') of
           (Err err, evs) \<Rightarrow>
             (Err (Errorf ''error while discovering token service URL: %w'' [Arg_w err]), evs)
         | (Panic, evs) \<Rightarrow> (Panic, evs)
         | (Ok root, evs) \<Rightarrow>
             (Ok (c\<lparr>loginEndpointURL := Links_Login_Href root,
                    uaaEndpointURL := Links_Uaa_Href root,
                    sshOAuthClient := Links_AppSSH_Meta_OauthClient root\<rparr>), evs)))"

definition initConfig :: "world \<Rightarrow> Config \<Rightarrow> Option list \<Rightarrow> Config result \<times> event list" where
  "initConfig w cfg options =
     (case applyOptions cfg options of
        (Some err, _) \<Rightarrow> (Err err, [])
      | (None, cfg1) \<Rightarrow>
          (case Validate cfg1 of
             Some err \<Rightarrow> (Err err, [])
           | None \<Rightarrow>
               (case discoverAuthConfig w (configureHTTPClient cfg1) of
                  (Err err, evs) \<Rightarrow> (Err err, evs)
                | (Panic, evs) \<Rightarrow> (Panic, evs)
                | (Ok cfg2, evs) \<Rightarrow>
                    (case createHTTPAuthClient w cfg2 of
                       (r, evs') \<Rightarrow> (r, evs @ evs')))))"

text \<open>\<^verbatim>\<open>strings.TrimRight(s, "/")\<close>.\<close>

definition TrimRight_slash :: "string \<Rightarrow> string" where
  "TrimRight_slash s = rev (dropWhile (\<lambda>ch. ch = CHR ''/'') (rev s))"

text \<open>The \<^verbatim>\<open>Config\<close> literal of \<^verbatim>\<open>New\<close>; every field it leaves out has its zero value.\<close>

definition New_cfg :: "string \<Rightarrow> Config" where
  "New_cfg api =
     \<lparr>apiEndpointURL = api,
      loginEndpointURL = [], uaaEndpointURL = [],
      sshOAuthClient = DefaultSSHClientID,
      username = [], password = [],
      clientID = DefaultClientID, clientSecret = [],
      grantType = [], origin = [], scopes = [],
      oAuthToken = None, httpClient = None, httpAuthClient = None,
      skipTLSValidation = False,
      requestTimeout = DefaultRequestTimeout,
      userAgent = DefaultUserAgent\<rparr>"

definition New :: "net_url \<Rightarrow> world \<Rightarrow> string \<Rightarrow> Option list \<Rightarrow> Config result \<times> event list" where
  "New L w apiRootURL options =
     (case url_Parse L apiRootURL of
        Inl err \<Rightarrow>
          (Err (Errorf ''expected an http(s) CF API root URI, but got %s: %w''
                  [Arg_s apiRootURL, Arg_w err]), [])
      | Inr u \<Rightarrow> initConfig w (New_cfg (TrimRight_slash (URL_String L u))) options)"


subsection \<open>The token source\<close>

text \<open>\<^verbatim>\<open>url.QueryEscape\<close>: letters, digits and \<^verbatim>\<open>- _ . ~\<close> stay, a space becomes
  \<^verbatim>\<open>+\<close>, every other byte becomes \<^verbatim>\<open>%XX\<close> in upper-case hexadecimal.\<close>

definition shouldEscape :: "char \<Rightarrow> bool" where
  "shouldEscape ch =
     (\<not> ((CHR ''a'' \<le> ch \<and> ch \<le> CHR ''z'') \<or> (CHR ''A'' \<le> ch \<and> ch \<le> CHR ''Z'')
         \<or> (CHR ''0'' \<le> ch \<and> ch \<le> CHR ''9'')
         \<or> ch = CHR ''-'' \<or> ch = CHR ''_'' \<or> ch = CHR ''.'' \<or> ch = CHR ''~''))"

definition upperhex :: string where
  "upperhex = ''0123456789ABCDEF''"

definition escape_byte :: "char \<Rightarrow> string" where
  "escape_byte ch =
     (if ch = CHR '' '' then ''+''
      else if shouldEscape ch
      then [CHR ''%'', upperhex ! (of_char ch div 16), upperhex ! (of_char ch mod 16)]
      else [ch])"

definition QueryEscape :: "string \<Rightarrow> string" where
  "QueryEscape s = concat (map escape_byte s)"

text \<open>\<^verbatim>\<open>Values.Add\<close>: \<^verbatim>\<open>v[key] = append(v[key], value)\<close>.\<close>

fun Values_Add :: "Values \<Rightarrow> string \<Rightarrow> string \<Rightarrow> Values" where
  "Values_Add [] key val = [(key, [val])]"
| "Values_Add ((k, vs) # v) key val =
     (if k = key then (k, vs @ [val]) # v else (k, vs) # Values_Add v key val)"

text \<open>\<^verbatim>\<open>Values.Encode\<close>: the keys sorted, one \<^verbatim>\<open>key=value\<close> for every value of a key,
  both escaped, joined by \<^verbatim>\<open>&\<close>.\<close>

definition Encode_pairs :: "Values \<Rightarrow> string list" where
  "Encode_pairs v =
     concat (map (\<lambda>(k, vs). map (\<lambda>x. QueryEscape k @ ''='' @ QueryEscape x) vs) (sort_key fst v))"

text \<open>
  The same pairs before they are written, to speak of their order: \<open>Encode_keyed v\<close> is
  the list of the pairs of key and value in the order \<^verbatim>\<open>Values.Encode\<close> writes them, and
  \<open>Encode_pair\<close> is one pair as written.
\<close>

definition Encode_keyed :: "Values \<Rightarrow> (string \<times> string) list" where
  "Encode_keyed v = concat (map (\<lambda>(k, vs). map (Pair k) vs) (sort_key fst v))"

definition Encode_pair :: "string \<times> string \<Rightarrow> string" where
  "Encode_pair p = QueryEscape (fst p) @ ''='' @ QueryEscape (snd p)"

fun Join :: "string list \<Rightarrow> string \<Rightarrow> string" where
  "Join [] sep = []"
| "Join [x] sep = x"
| "Join (x # y # xs) sep = x @ sep @ Join (y # xs) sep"

definition Values_Encode :: "Values \<Rightarrow> string" where
  "Values_Encode v = Join (Encode_pairs v) ''&''"

text \<open>\<^verbatim>\<open>fmt.Sprintf(`{"origin":"%s"}`, origin)\<close>.\<close>

definition Sprintf_origin :: "string \<Rightarrow> string" where
  "Sprintf_origin org =
     ''{'' @ [CHR 0x22] @ ''origin'' @ [CHR 0x22] @ '':'' @ [CHR 0x22] @ org @ [CHR 0x22] @ ''}''"

definition addLoginHintToURL :: "net_url \<Rightarrow> string \<Rightarrow> string \<Rightarrow> string" where
  "addLoginHintToURL L tokenURL org =
     (case url_Parse L tokenURL of
        Inl err \<Rightarrow> tokenURL
      | Inr u \<Rightarrow>
          (let q = Values_Add (URL_Query L u) ''login_hint'' (Sprintf_origin org)
           in URL_String L (u\<lparr>RawQuery := Values_Encode q\<rparr>)))"

definition twoLeggedAuthConfigFn :: "Config \<Rightarrow> clientcredentials_Config" where
  "twoLeggedAuthConfigFn c =
     \<lparr>cc_ClientID = clientID c, cc_ClientSecret = clientSecret c, cc_TokenURL = uaaEndpointURL c\<rparr>"

definition threeLeggedAuthConfigFn :: "Config \<Rightarrow> oauth2_Config" where
  "threeLeggedAuthConfigFn c =
     \<lparr>oauth2_ClientID = clientID c, oauth2_ClientSecret = clientSecret c,
      oauth2_Scopes = scopes c,
      Endpoint_AuthURL = loginEndpointURL c @ ''/oauth/auth'',
      Endpoint_TokenURL = uaaEndpointURL c @ ''/oauth/token''\<rparr>"

definition CreateOAuth2TokenSource ::
  "net_url \<Rightarrow> world \<Rightarrow> Config \<Rightarrow> TokenSource result \<times> event list" where
  "CreateOAuth2TokenSource L w c =
     (let oauthCtx = httpClient c in
      if grantType c = GrantTypeClientCredentials
      then (Ok (clientcredentials_TokenSource (twoLeggedAuthConfigFn c) oauthCtx), [])
      else if grantType c = GrantTypeAuthorizationCode
      then
        (let authConfig0 = threeLeggedAuthConfigFn c;
             authConfig =
               (if origin c \<noteq> []
                then authConfig0\<lparr>Endpoint_TokenURL :=
                       addLoginHintToURL L (Endpoint_TokenURL authConfig0) (origin c)\<rparr>
                else authConfig0)
         in (case PasswordCredentialsToken w authConfig oauthCtx (username c) (password c) of
               Err err \<Rightarrow> Err err
             | Panic \<Rightarrow> Panic
             | Ok token \<Rightarrow> Ok (oauth2_TokenSource authConfig (Some token) oauthCtx),
             [Ev_PasswordCredentialsToken authConfig (username c) (password c)]))
      else if grantType c = GrantTypeRefreshToken
      then (Ok (oauth2_TokenSource (threeLeggedAuthConfigFn c) (oAuthToken c) oauthCtx), [])
      else (Err (Errorf (''unsupported OAuth2 grant type '%s'' @ [CHR 0x27]) [Arg_s (grantType c)]),
            []))"

section \<open>client/security_groups.go\<close>

text \<open>
  \<^verbatim>\<open>resource.ListSecurityGroupResponse\<close>, as far as \<^verbatim>\<open>ListByQuery\<close> reads it: the records
  of the page, of any type, and \<^verbatim>\<open>Pagination.Next.Href\<close>, a string that is empty when the
  JSON has no next link.
\<close>

record 'r ListSecurityGroupResponse =
  Resources :: "'r list"
  Pagination_Next_Href :: string

text \<open>
  The client behind \<^verbatim>\<open>c.client\<close> and the JSON decoder, both outside these files:
  \<open>DoRequest\<close> answers the request made by \<^verbatim>\<open>NewRequest(method, url)\<close>, \<open>json_Decode\<close>
  reads a body into the response type.
\<close>

record 'r SecurityGroupClient =
  DoRequest :: "string \<times> string \<Rightarrow> error + Response"
  json_Decode :: "string \<Rightarrow> error + 'r ListSecurityGroupResponse"

text \<open>\<^verbatim>\<open>fmt.Sprintf("%s?%s", requestURL.Path, requestURL.RawQuery)\<close>.\<close>

definition request_path :: "URL \<Rightarrow> string" where
  "request_path requestURL = Path requestURL @ ''?'' @ RawQuery requestURL"

definition StatusOK :: int where
  "StatusOK = 200"

text \<open>
  The \<^verbatim>\<open>for\<close> loop of \<^verbatim>\<open>ListByQuery\<close>, from the current \<^verbatim>\<open>requestURL\<close> and the records
  appended so far. The result is the pair the Go function returns, the slice (nil is \<open>[]\<close>)
  and the error (nil is \<open>None\<close>); the loop has no bound, so a run that never ends is \<open>None\<close>.
\<close>

partial_function (option) ListByQuery_loop ::
  "net_url \<Rightarrow> 'r SecurityGroupClient \<Rightarrow> URL \<Rightarrow> 'r list \<Rightarrow> ('r list \<times> error option) option" where
  "ListByQuery_loop L c requestURL securityGroups =
     (case DoRequest c (''GET'', request_path requestURL) of
        Inl err \<Rightarrow> Some ([], Some (Errorf ''error requesting security groups: %w'' [Arg_w err]))
      | Inr resp \<Rightarrow>
          if StatusCode resp \<noteq> StatusOK
          then Some ([], Some (Errorf ''error listing security groups, response code: %d''
                                 [Arg_d (StatusCode resp)]))
          else
            (case json_Decode c (Body resp) of
               Inl err \<Rightarrow>
                 Some ([], Some (Errorf ''error parsing JSON from list security groups: %w''
                                   [Arg_w err]))
             | Inr data \<Rightarrow>
                 (case url_Parse L (Pagination_Next_Href data) of
                    Inl err \<Rightarrow>
                      Some ([], Some (Errorf ''error parsing next page URL: %w'' [Arg_w err]))
                  | Inr next \<Rightarrow>
                      if URL_String L next = []
                      then Some (securityGroups @ Resources data, None)
                      else ListByQuery_loop L c next (securityGroups @ Resources data))))"

declare ListByQuery_loop.simps [code]

definition ListByQuery ::
  "net_url \<Rightarrow> 'r SecurityGroupClient \<Rightarrow> Values \<Rightarrow> ('r list \<times> error option) option" where
  "ListByQuery L c query =
     (case url_Parse L ''/v3/security_groups'' of
        Inl err \<Rightarrow> Some ([], Some err)
      | Inr requestURL \<Rightarrow>
          ListByQuery_loop L c (requestURL\<lparr>RawQuery := Values_Encode query\<rparr>) [])"

text \<open>
  Pages, to state what the loop does. \<open>fetch_page c requestURL\<close> is the page the request of
  the loop gets: status 200 and a body that decodes. \<open>next_request L c requestURL pages\<close> is
  the URL the loop holds after \<open>pages\<close>, when each of them is fetched in turn and its next
  link parses to a URL that does not print as the empty string; \<open>last_page\<close> is a page
  whose next link parses to a URL that does.
\<close>

definition fetch_page :: "'r SecurityGroupClient \<Rightarrow> URL \<Rightarrow> 'r ListSecurityGroupResponse option" where
  "fetch_page c requestURL =
     (case DoRequest c (''GET'', request_path requestURL) of
        Inl err \<Rightarrow> None
      | Inr resp \<Rightarrow>
          if StatusCode resp \<noteq> StatusOK then None
          else (case json_Decode c (Body resp) of Inl err \<Rightarrow> None | Inr data \<Rightarrow> Some data))"

fun next_request ::
  "net_url \<Rightarrow> 'r SecurityGroupClient \<Rightarrow> URL \<Rightarrow> 'r ListSecurityGroupResponse list \<Rightarrow> URL option" where
  "next_request L c requestURL [] = Some requestURL"
| "next_request L c requestURL (page # pages) =
     (if fetch_page c requestURL = Some page
      then (case url_Parse L (Pagination_Next_Href page) of
              Inl err \<Rightarrow> None
            | Inr next \<Rightarrow>
                if URL_String L next = [] then None else next_request L c next pages)
      else None)"

definition last_page ::
  "net_url \<Rightarrow> 'r SecurityGroupClient \<Rightarrow> URL \<Rightarrow> 'r ListSecurityGroupResponse \<Rightarrow> bool" where
  "last_page L c requestURL page =
     (fetch_page c requestURL = Some page
      \<and> (case url_Parse L (Pagination_Next_Href page) of
            Inl err \<Rightarrow> False
          | Inr next \<Rightarrow> URL_String L next = []))"

section \<open>operation/manifest.go\<close>

text \<open>
  A YAML document, as \<^verbatim>\<open>yaml.Marshal\<close> builds it before printing: scalars, sequences and
  mappings with their keys in the order of output.
\<close>

datatype yaml =
  YNull
  | YString string
  | YBool bool
  | YUint "64 word"
  | YSeq "yaml list"
  | YMap "(string \<times> yaml) list"

type_synonym AppHealthCheckType = string

definition Http :: AppHealthCheckType where
  "Http = ''http''"

definition Port :: AppHealthCheckType where
  "Port = ''port''"

definition Process :: AppHealthCheckType where
  "Process = ''process''"

type_synonym AppProcessType = string

definition Web :: AppProcessType where
  "Web = ''web''"

definition Worker :: AppProcessType where
  "Worker = ''worker''"

text \<open>
  The structs. A pointer field is an option, \<open>None\<close> for nil; a Go map is the list of its
  entries, in the order the YAML library prints them; \<^verbatim>\<open>uint\<close> is a 64-bit word. A field
  whose name another struct of the model has already carries the name of its struct.
\<close>

record AppManifestDocker =
  Image :: "string option"
  Username :: "string option"

record AppManifestRoute =
  Route :: "string option"
  Protocol :: "string option"

record AppManifestService =
  Service_Name :: "string option"
  Parameters :: "(string \<times> yaml) list option"

record AppManifestSideCar =
  SideCar_Name :: "string option"
  ProcessTypes :: "string list option"
  SideCar_Command :: "string option"
  SideCar_Memory :: "string option"

record AppManifestProcess =
  Type :: "AppProcessType option"
  Command :: "string option"
  DiskQuota :: "string option"
  HealthCheckType :: "AppHealthCheckType option"
  HealthCheckHTTPEndpoint :: "string option"
  HealthCheckInvocationTimeout :: "64 word option"
  Instances :: "64 word option"
  LogRateLimitPerSecond :: "string option"
  Memory :: "string option"
  Process_Timeout :: "64 word option"

text \<open>\<^verbatim>\<open>resource.Metadata\<close> is declared outside these files: its type is \<open>'m\<close>.\<close>

record 'm AppManifest =
  Name :: string
  App_Path :: "string option"
  Buildpacks :: "string list option"
  Docker :: "AppManifestDocker option"
  Env :: "(string \<times> string) list option"
  RandomRoute :: "bool option"
  NoRoute :: "bool option"
  DefaultRoute :: "bool option"
  Routes :: "AppManifestRoute list option"
  Services :: "AppManifestService list option"
  Sidecars :: "AppManifestSideCar list option"
  Processes :: "AppManifestProcess list option"
  Stack :: "string option"
  Metadata :: "'m option"
  Inline_AppManifestProcess :: AppManifestProcess

record 'm Manifest =
  Version :: string
  Applications :: "'m AppManifest option list"

subsection \<open>Setters\<close>

definition WithPath :: "'m AppManifest \<Rightarrow> string \<Rightarrow> 'm AppManifest" where
  "WithPath a path = a\<lparr>App_Path := Some path\<rparr>"

definition WithBuildpacks :: "'m AppManifest \<Rightarrow> string list \<Rightarrow> 'm AppManifest" where
  "WithBuildpacks a buildpacks = a\<lparr>Buildpacks := Some buildpacks\<rparr>"

definition WithDocker :: "'m AppManifest \<Rightarrow> AppManifestDocker option \<Rightarrow> 'm AppManifest" where
  "WithDocker a docker = a\<lparr>Docker := docker\<rparr>"

definition WithEnv :: "'m AppManifest \<Rightarrow> (string \<times> string) list \<Rightarrow> 'm AppManifest" where
  "WithEnv a env = a\<lparr>Env := Some env\<rparr>"

definition WithRandomRoute :: "'m AppManifest \<Rightarrow> bool \<Rightarrow> 'm AppManifest" where
  "WithRandomRoute a randomRoute = a\<lparr>RandomRoute := Some randomRoute\<rparr>"

definition WithNoRoute :: "'m AppManifest \<Rightarrow> bool \<Rightarrow> 'm AppManifest" where
  "WithNoRoute a noRoute = a\<lparr>NoRoute := Some noRoute\<rparr>"

definition WithDefaultRoute :: "'m AppManifest \<Rightarrow> bool \<Rightarrow> 'm AppManifest" where
  "WithDefaultRoute a defaultRoute = a\<lparr>DefaultRoute := Some defaultRoute\<rparr>"

definition WithRoutes :: "'m AppManifest \<Rightarrow> AppManifestRoute list \<Rightarrow> 'm AppManifest" where
  "WithRoutes a routes = a\<lparr>Routes := Some routes\<rparr>"

definition WithServices :: "'m AppManifest \<Rightarrow> AppManifestService list \<Rightarrow> 'm AppManifest" where
  "WithServices a services = a\<lparr>Services := Some services\<rparr>"

definition WithSidecars :: "'m AppManifest \<Rightarrow> AppManifestSideCar list \<Rightarrow> 'm AppManifest" where
  "WithSidecars a sidecars = a\<lparr>Sidecars := Some sidecars\<rparr>"

definition WithProcesses :: "'m AppManifest \<Rightarrow> AppManifestProcess list \<Rightarrow> 'm AppManifest" where
  "WithProcesses a processes = a\<lparr>Processes := Some processes\<rparr>"

definition WithStack :: "'m AppManifest \<Rightarrow> string \<Rightarrow> 'm AppManifest" where
  "WithStack a stack = a\<lparr>Stack := Some stack\<rparr>"

definition WithMetadata :: "'m AppManifest \<Rightarrow> 'm option \<Rightarrow> 'm AppManifest" where
  "WithMetadata a metadata = a\<lparr>Metadata := metadata\<rparr>"

definition WithAppManifestProcess :: "'m AppManifest \<Rightarrow> AppManifestProcess \<Rightarrow> 'm AppManifest" where
  "WithAppManifestProcess a appManifestProcess = a\<lparr>Inline_AppManifestProcess := appManifestProcess\<rparr>"

definition WithImage :: "AppManifestDocker \<Rightarrow> string \<Rightarrow> AppManifestDocker" where
  "WithImage d img = d\<lparr>Image := Some img\<rparr>"

definition WithUsername :: "AppManifestDocker \<Rightarrow> string \<Rightarrow> AppManifestDocker" where
  "WithUsername d usr = d\<lparr>Username := Some usr\<rparr>"

definition WithRoute :: "AppManifestRoute \<Rightarrow> string \<Rightarrow> AppManifestRoute" where
  "WithRoute r route = r\<lparr>Route := Some route\<rparr>"

definition WithProtocol :: "AppManifestRoute \<Rightarrow> string \<Rightarrow> AppManifestRoute" where
  "WithProtocol r protocol = r\<lparr>Protocol := Some protocol\<rparr>"

definition Service_WithName :: "AppManifestService \<Rightarrow> string \<Rightarrow> AppManifestService" where
  "Service_WithName s name = s\<lparr>Service_Name := Some name\<rparr>"

definition WithParameters :: "AppManifestService \<Rightarrow> (string \<times> yaml) list \<Rightarrow> AppManifestService" where
  "WithParameters s parameters = s\<lparr>Parameters := Some parameters\<rparr>"

definition SideCar_WithName :: "AppManifestSideCar \<Rightarrow> string \<Rightarrow> AppManifestSideCar" where
  "SideCar_WithName s name = s\<lparr>SideCar_Name := Some name\<rparr>"

definition WithProcessTypes :: "AppManifestSideCar \<Rightarrow> string list \<Rightarrow> AppManifestSideCar" where
  "WithProcessTypes s processTypes = s\<lparr>ProcessTypes := Some processTypes\<rparr>"

definition SideCar_WithCommand :: "AppManifestSideCar \<Rightarrow> string \<Rightarrow> AppManifestSideCar" where
  "SideCar_WithCommand s command = s\<lparr>SideCar_Command := Some command\<rparr>"

definition SideCar_WithMemory :: "AppManifestSideCar \<Rightarrow> string \<Rightarrow> AppManifestSideCar" where
  "SideCar_WithMemory s memory = s\<lparr>SideCar_Memory := Some memory\<rparr>"

definition WithType :: "AppManifestProcess \<Rightarrow> AppProcessType \<Rightarrow> AppManifestProcess" where
  "WithType p appProcessType = p\<lparr>Type := Some appProcessType\<rparr>"

definition WithCommand :: "AppManifestProcess \<Rightarrow> string \<Rightarrow> AppManifestProcess" where
  "WithCommand p command = p\<lparr>Command := Some command\<rparr>"

definition WithDiskQuota :: "AppManifestProcess \<Rightarrow> string \<Rightarrow> AppManifestProcess" where
  "WithDiskQuota p diskQuota = p\<lparr>DiskQuota := Some diskQuota\<rparr>"

definition WithHealthCheckType :: "AppManifestProcess \<Rightarrow> AppHealthCheckType \<Rightarrow> AppManifestProcess" where
  "WithHealthCheckType p healthCheckType = p\<lparr>HealthCheckType := Some healthCheckType\<rparr>"

definition WithHealthCheckHTTPEndpoint :: "AppManifestProcess \<Rightarrow> string \<Rightarrow> AppManifestProcess" where
  "WithHealthCheckHTTPEndpoint p healthCheckHTTPEndpoint =
     p\<lparr>HealthCheckHTTPEndpoint := Some healthCheckHTTPEndpoint\<rparr>"

definition WithHealthCheckInvocationTimeout :: "AppManifestProcess \<Rightarrow> 64 word \<Rightarrow> AppManifestProcess" where
  "WithHealthCheckInvocationTimeout p healthCheckInvocationTimeout =
     p\<lparr>HealthCheckInvocationTimeout := Some healthCheckInvocationTimeout\<rparr>"

definition WithInstances :: "AppManifestProcess \<Rightarrow> 64 word \<Rightarrow> AppManifestProcess" where
  "WithInstances p instances = p\<lparr>Instances := Some instances\<rparr>"

definition WithLogRateLimitPerSecond :: "AppManifestProcess \<Rightarrow> string \<Rightarrow> AppManifestProcess" where
  "WithLogRateLimitPerSecond p logRateLimitPerSecond =
     p\<lparr>LogRateLimitPerSecond := Some logRateLimitPerSecond\<rparr>"

definition WithMemory :: "AppManifestProcess \<Rightarrow> string \<Rightarrow> AppManifestProcess" where
  "WithMemory p memory = p\<lparr>Memory := Some memory\<rparr>"

definition WithTimeout :: "AppManifestProcess \<Rightarrow> 64 word \<Rightarrow> AppManifestProcess" where
  "WithTimeout p timeout = p\<lparr>Process_Timeout := Some timeout\<rparr>"

text \<open>
  A method of the embedded \<^verbatim>\<open>AppManifestProcess\<close> called on an \<^verbatim>\<open>AppManifest\<close>, as in
  \<^verbatim>\<open>a.WithMemory("1G")\<close>: it works on the embedded struct.
\<close>

definition promoted ::
  "(AppManifestProcess \<Rightarrow> 'x \<Rightarrow> AppManifestProcess) \<Rightarrow> 'm AppManifest \<Rightarrow> 'x \<Rightarrow> 'm AppManifest" where
  "promoted setter a x = a\<lparr>Inline_AppManifestProcess := setter (Inline_AppManifestProcess a) x\<rparr>"

definition NewManifest :: "'m AppManifest option list \<Rightarrow> 'm Manifest" where
  "NewManifest applications = \<lparr>Version = ''1'', Applications = applications\<rparr>"

definition emptyAppManifestProcess :: AppManifestProcess where
  "emptyAppManifestProcess =
     \<lparr>Type = None, Command = None, DiskQuota = None, HealthCheckType = None,
      HealthCheckHTTPEndpoint = None, HealthCheckInvocationTimeout = None, Instances = None,
      LogRateLimitPerSecond = None, Memory = None, Process_Timeout = None\<rparr>"

definition NewAppManifest :: "string \<Rightarrow> 'm AppManifest" where
  "NewAppManifest appName =
     \<lparr>Name = appName, App_Path = None, Buildpacks = None, Docker = None, Env = None,
      RandomRoute = None, NoRoute = None, DefaultRoute = None, Routes = None, Services = None,
      Sidecars = None, Processes = None, Stack = None, Metadata = None,
      Inline_AppManifestProcess = emptyAppManifestProcess\<rparr>"

subsection \<open>Serialization\<close>

text \<open>
  What \<^verbatim>\<open>yaml.Marshal\<close> does with the struct tags. The fields of a struct are listed by
  their key in the order of declaration, each with the YAML value of what its pointer points
  to, \<open>None\<close> for a nil pointer; \<open>omitempty\<close> drops the nil ones, and an inlined struct
  puts its fields among those of the struct around it.
\<close>

definition omitempty :: "(string \<times> yaml option) list \<Rightarrow> (string \<times> yaml) list" where
  "omitempty fs = List.map_filter (\<lambda>(k, v). map_option (Pair k) v) fs"

definition YStrings :: "string list \<Rightarrow> yaml" where
  "YStrings xs = YSeq (map YString xs)"

definition AppManifestDocker_fields :: "AppManifestDocker \<Rightarrow> (string \<times> yaml option) list" where
  "AppManifestDocker_fields d =
     [(''image'', map_option YString (Image d)),
      (''username'', map_option YString (Username d))]"

definition AppManifestRoute_fields :: "AppManifestRoute \<Rightarrow> (string \<times> yaml option) list" where
  "AppManifestRoute_fields r =
     [(''route'', map_option YString (Route r)),
      (''protocol'', map_option YString (Protocol r))]"

definition AppManifestService_fields :: "AppManifestService \<Rightarrow> (string \<times> yaml option) list" where
  "AppManifestService_fields s =
     [(''name'', map_option YString (Service_Name s)),
      (''parameters'', map_option YMap (Parameters s))]"

definition AppManifestSideCar_fields :: "AppManifestSideCar \<Rightarrow> (string \<times> yaml option) list" where
  "AppManifestSideCar_fields s =
     [(''name'', map_option YString (SideCar_Name s)),
      (''process_types'', map_option YStrings (ProcessTypes s)),
      (''command'', map_option YString (SideCar_Command s)),
      (''memory'', map_option YString (SideCar_Memory s))]"

definition AppManifestProcess_fields :: "AppManifestProcess \<Rightarrow> (string \<times> yaml option) list" where
  "AppManifestProcess_fields p =
     [(''type'', map_option YString (Type p)),
      (''command'', map_option YString (Command p)),
      (''disk_quota'', map_option YString (DiskQuota p)),
      (''health-check-type'', map_option YString (HealthCheckType p)),
      (''health-check-http-endpoint'', map_option YString (HealthCheckHTTPEndpoint p)),
      (''health-check-invocation-timeout'', map_option YUint (HealthCheckInvocationTimeout p)),
      (''instances'', map_option YUint (Instances p)),
      (''log-rate-limit-per-second'', map_option YString (LogRateLimitPerSecond p)),
      (''memory'', map_option YString (Memory p)),
      (''timeout'', map_option YUint (Process_Timeout p))]"

definition Marshal_struct :: "('s \<Rightarrow> (string \<times> yaml option) list) \<Rightarrow> 's \<Rightarrow> yaml" where
  "Marshal_struct fields_of s = YMap (omitempty (fields_of s))"

definition AppManifest_fields ::
  "('m \<Rightarrow> yaml) \<Rightarrow> 'm AppManifest \<Rightarrow> (string \<times> yaml option) list" where
  "AppManifest_fields marshal_Metadata a =
     [(''path'', map_option YString (App_Path a)),
      (''buildpacks'', map_option YStrings (Buildpacks a)),
      (''docker'', map_option (Marshal_struct AppManifestDocker_fields) (Docker a)),
      (''env'', map_option (\<lambda>env. YMap (map (\<lambda>(k, v). (k, YString v)) env)) (Env a)),
      (''random-route'', map_option YBool (RandomRoute a)),
      (''no-route'', map_option YBool (NoRoute a)),
      (''default-route'', map_option YBool (DefaultRoute a)),
      (''routes'', map_option (\<lambda>rs. YSeq (map (Marshal_struct AppManifestRoute_fields) rs)) (Routes a)),
      (''services'',
         map_option (\<lambda>ss. YSeq (map (Marshal_struct AppManifestService_fields) ss)) (Services a)),
      (''sidecars'',
         map_option (\<lambda>ss. YSeq (map (Marshal_struct AppManifestSideCar_fields) ss)) (Sidecars a)),
      (''processes'',
         map_option (\<lambda>ps. YSeq (map (Marshal_struct AppManifestProcess_fields) ps)) (Processes a)),
      (''stack'', map_option YString (Stack a)),
      (''metadata'', map_option marshal_Metadata (Metadata a))]
     @ AppManifestProcess_fields (Inline_AppManifestProcess a)"

text \<open>\<^verbatim>\<open>name\<close> has no \<^verbatim>\<open>omitempty\<close>: it is always written.\<close>

definition Marshal_AppManifest :: "('m \<Rightarrow> yaml) \<Rightarrow> 'm AppManifest \<Rightarrow> (string \<times> yaml) list" where
  "Marshal_AppManifest marshal_Metadata a =
     (''name'', YString (Name a)) # omitempty (AppManifest_fields marshal_Metadata a)"

text \<open>\<^verbatim>\<open>version\<close> is a string with \<^verbatim>\<open>omitempty\<close>, left out when empty; a nil
  \<^verbatim>\<open>*AppManifest\<close> is written as null.\<close>

definition Marshal_Manifest :: "('m \<Rightarrow> yaml) \<Rightarrow> 'm Manifest \<Rightarrow> yaml" where
  "Marshal_Manifest marshal_Metadata m =
     YMap ((if Version m = [] then [] else [(''version'', YString (Version m))])
           @ [(''applications'',
               YSeq (map (\<lambda>a. case a of None \<Rightarrow> YNull
                                | Some x \<Rightarrow> YMap (Marshal_AppManifest marshal_Metadata x))
                      (Applications m)))])"

section \<open>The push orchestrator\<close>

text \<open>
  Modelled from the spec: the push orchestrator (\<^verbatim>\<open>NewAppPushOperation\<close> and its method
  \<^verbatim>\<open>Push\<close>) is not in these files, which hold only its test \<^verbatim>\<open>TestAppPush\<close>. The
  steps are those the spec names in its component design and in its end-to-end scenario, the
  asynchronous manifest application being two of them, the submission and the wait for the job.
\<close>

datatype step =
  OrgLookup | SpaceLookup | ManifestApply | JobPoll | AppLookup
  | PackageCreate | BitsUpload | PackagePoll
  | BuildCreate | BuildPoll | DropletLookup | DropletAssign | Start









section \<open>Example collaborators\<close>

text \<open>
  A \<open>net_url\<close> and a \<open>world\<close> to run the definitions on. \<open>example_Parse\<close> lists what
  \<^verbatim>\<open>url.Parse\<close> returns on the URLs of the examples, and \<open>example_Query\<close> what
  \<^verbatim>\<open>URL.Query\<close> returns on their queries; on a URL whose path needs no escaping,
  \<open>example_String\<close> is \<^verbatim>\<open>URL.String\<close>.
\<close>

definition example_String :: "URL \<Rightarrow> string" where
  "example_String u =
     (if Scheme u \<noteq> [] then Scheme u @ '':'' else [])
     @ (if Scheme u \<noteq> [] \<or> Host u \<noteq> []
        then (if Host u \<noteq> [] \<or> Path u \<noteq> [] then ''//'' else []) @ Host u else [])
     @ Path u
     @ (if RawQuery u \<noteq> [] then ''?'' @ RawQuery u else [])
     @ (if Fragment u \<noteq> [] then ''#'' @ Fragment u else [])"

definition example_URL :: "string \<Rightarrow> string \<Rightarrow> string \<Rightarrow> string \<Rightarrow> URL" where
  "example_URL s h p q = \<lparr>Scheme = s, Host = h, Path = p, RawQuery = q, Fragment = []\<rparr>"

definition example_Parse :: "string \<Rightarrow> error + URL" where
  "example_Parse s =
     (if s = [] then Inr (example_URL [] [] [] [])
      else if s = ''/v3/security_groups'' then Inr (example_URL [] [] ''/v3/security_groups'' [])
      else if s = ''https://api.example.org'' then Inr (example_URL ''https'' ''api.example.org'' [] [])
      else if s = ''https://api.example.org/v3/security_groups?page=2&per_page=2''
      then Inr (example_URL ''https'' ''api.example.org'' ''/v3/security_groups'' ''page=2&per_page=2'')
      else if s = ''https://api.example.org/v3/security_groups?page=3&per_page=2''
      then Inr (example_URL ''https'' ''api.example.org'' ''/v3/security_groups'' ''page=3&per_page=2'')
      else if s = ''https://uaa.example.org/oauth/token''
      then Inr (example_URL ''https'' ''uaa.example.org'' ''/oauth/token'' [])
      else if s = ''https://uaa.example.org/oauth/token?z=1&a=2''
      then Inr (example_URL ''https'' ''uaa.example.org'' ''/oauth/token'' ''z=1&a=2'')
      else if s = ''10.0.0.1:8443/oauth/token'' \<or> s = ''10.0.0.1:443/v3/security_groups?page=2''
      then Inl (Extern ''first path segment in URL cannot contain colon'')
      else Inl (Extern ''not an example URL''))"

definition example_Query :: "URL \<Rightarrow> Values" where
  "example_Query u =
     (if RawQuery u = ''page=2&per_page=2'' then [(''page'', [''2'']), (''per_page'', [''2''])]
      else if RawQuery u = ''page=3&per_page=2'' then [(''page'', [''3'']), (''per_page'', [''2''])]
      else if RawQuery u = ''z=1&a=2'' then [(''z'', [''1'']), (''a'', [''2''])]
      else [])"

definition example_url :: net_url where
  "example_url =
     \<lparr>url_Parse = example_Parse, URL_String = example_String, URL_Query = example_Query\<rparr>"

definition example_Root :: Root where
  "example_Root =
     \<lparr>Links_Login_Href = ''https://login.example.org'',
      Links_Uaa_Href = ''https://uaa.example.org'',
      Links_AppSSH_Meta_OauthClient = ''ssh-proxy''\<rparr>"

definition example_Token :: Token where
  "example_Token =
     \<lparr>AccessToken = ''access'', TokenType = ''bearer'', RefreshToken = ''refresh'', Expiry = 0\<rparr>"

text \<open>The API root answers 200 with the discovery links; any other URL is unreachable.
  The authenticated client wraps the transport of the plain one. The password grant is
  given to \<^verbatim>\<open>admin\<close> with the password \<^verbatim>\<open>secret\<close>, and panics on a nil client.\<close>

definition example_world :: world where
  "example_world =
     \<lparr>path_Join = (\<lambda>a b. a @ b),
      NewRequestWithContext = (\<lambda>m u. Inr \<lparr>Method = m, URL = u\<rparr>),
      Do = (\<lambda>cl req.
              if URL req = ''https://api.example.org/''
              then Inr \<lparr>StatusCode = 200, Body = ''root''\<rparr>
              else Inl (Extern ''connection refused'')),
      IsStatusSuccess = (\<lambda>n. 200 \<le> n \<and> n < 300),
      DecodeError = (\<lambda>resp. Extern ''unexpected status''),
      DecodeBody = (\<lambda>resp. if Body resp = ''root'' then Inr example_Root
                            else Inl (Extern ''unexpected end of JSON input'')),
      NewAuthenticatedClient = (\<lambda>hc c.
              case hc of
                None \<Rightarrow> (None, Some (Extern ''no client''))
              | Some cl \<Rightarrow> (Some (cl\<lparr>Transport := oauth2_Transport (Transport cl)\<rparr>), None)),
      PasswordCredentialsToken = (\<lambda>cfg hc u p.
              case hc of
                None \<Rightarrow> Panic
              | Some cl \<Rightarrow>
                  if u = ''admin'' \<and> p = ''secret'' then Ok example_Token
                  else Err (Extern ''oauth2: cannot fetch token: 401 Unauthorized''))\<rparr>"

text \<open>An option that sets the user name, and one that sets a refresh token.\<close>

definition example_Username :: "string \<Rightarrow> Option" where
  "example_Username u c = (None, c\<lparr>username := u, grantType := GrantTypeAuthorizationCode\<rparr>)"

definition example_TokenOption :: Option where
  "example_TokenOption c =
     (None, c\<lparr>oAuthToken := Some example_Token, grantType := GrantTypeRefreshToken\<rparr>)"

definition example_cfg :: Config where
  "example_cfg = New_cfg ''https://api.example.org''"

definition example_plain_client :: http_Client where
  "example_plain_client =
     \<lparr>Transport = http_Transport None, CheckRedirect = internal_CheckRedirect,
      Timeout = DefaultRequestTimeout\<rparr>"

definition example_auth_client :: http_Client where
  "example_auth_client =
     \<lparr>Transport = oauth2_Transport (http_Transport None), CheckRedirect = internal_CheckRedirect,
      Timeout = DefaultRequestTimeout\<rparr>"

definition example_unreachable :: world where
  "example_unreachable = example_world\<lparr>Do := (\<lambda>cl req. Inl (Extern ''connection refused''))\<rparr>"

definition example_login :: Config where
  "example_login =
     example_cfg\<lparr>loginEndpointURL := ''https://login.example.org'',
                 uaaEndpointURL := ''https://uaa.example.org'',
                 username := ''admin'', password := ''wrong'',
                 grantType := GrantTypeAuthorizationCode,
                 httpClient := Some example_plain_client\<rparr>"

text \<open>
  A server with five security groups on three pages of two, the records being their names.
  \<open>example_sg n\<close> answers 500 on page \<open>n\<close> (on no page when \<open>n = 0\<close>);
  \<open>example_sg_badlink\<close> has, on its first page, a next link that \<^verbatim>\<open>url.Parse\<close> rejects.
\<close>

definition example_page :: "nat \<Rightarrow> string ListSecurityGroupResponse" where
  "example_page n =
     (if n = 1
      then \<lparr>Resources = [''sg-1'', ''sg-2''],
            Pagination_Next_Href = ''https://api.example.org/v3/security_groups?page=2&per_page=2''\<rparr>
      else if n = 2
      then \<lparr>Resources = [''sg-3'', ''sg-4''],
            Pagination_Next_Href = ''https://api.example.org/v3/security_groups?page=3&per_page=2''\<rparr>
      else \<lparr>Resources = [''sg-5''], Pagination_Next_Href = []\<rparr>)"

definition example_Decode :: "string \<Rightarrow> error + string ListSecurityGroupResponse" where
  "example_Decode body =
     (if body = ''page 1'' then Inr (example_page 1)
      else if body = ''page 2'' then Inr (example_page 2)
      else if body = ''page 3'' then Inr (example_page 3)
      else if body = ''page 1, bad link''
      then Inr ((example_page 1)\<lparr>Pagination_Next_Href := ''10.0.0.1:443/v3/security_groups?page=2''\<rparr>)
      else Inl (Extern ''unexpected end of JSON input''))"

definition example_sg :: "nat \<Rightarrow> string SecurityGroupClient" where
  "example_sg n =
     \<lparr>DoRequest = (\<lambda>(m, u).
        if m = ''GET'' \<and> u = ''/v3/security_groups?''
        then Inr \<lparr>StatusCode = (if n = 1 then 500 else 200), Body = ''page 1''\<rparr>
        else if m = ''GET'' \<and> u = ''/v3/security_groups?page=2&per_page=2''
        then Inr \<lparr>StatusCode = (if n = 2 then 500 else 200), Body = ''page 2''\<rparr>
        else if m = ''GET'' \<and> u = ''/v3/security_groups?page=3&per_page=2''
        then Inr \<lparr>StatusCode = (if n = 3 then 500 else 200), Body = ''page 3''\<rparr>
        else Inr \<lparr>StatusCode = 404, Body = []\<rparr>),
      json_Decode = example_Decode\<rparr>"

definition example_sg_badlink :: "string SecurityGroupClient" where
  "example_sg_badlink =
     \<lparr>DoRequest = (\<lambda>(m, u).
        if m = ''GET'' \<and> u = ''/v3/security_groups?''
        then Inr \<lparr>StatusCode = 200, Body = ''page 1, bad link''\<rparr>
        else Inr \<lparr>StatusCode = 404, Body = []\<rparr>),
      json_Decode = example_Decode\<rparr>"

text \<open>
  The second manifest of \<^verbatim>\<open>TestManifestMarshalling\<close>; the metadata are of type \<open>unit\<close>.
\<close>

definition example_marshal_Metadata :: "unit \<Rightarrow> yaml" where
  "example_marshal_Metadata m = YMap []"

definition example_minimal :: "unit AppManifest" where
  "example_minimal =
     WithStack
       (WithNoRoute
          (promoted WithMemory
             (WithBuildpacks (NewAppManifest ''spring-music'') [''java_buildpack_offline''])
             ''1G'')
          True)
       ''cflinuxfs3''"

definition example_docker :: AppManifestDocker where
  "example_docker = \<lparr>Image = Some ''registry.example.org/app'', Username = None\<rparr>"



section \<open>Properties\<close>

subsection \<open>config/config.go\<close>

lemma configureHTTPClient_client:
  "\<exists>hc. httpClient (configureHTTPClient c) = Some hc"
  by (simp add: configureHTTPClient_def Let_def)

lemma configureHTTPClient_frame:
  "loginEndpointURL (configureHTTPClient c) = loginEndpointURL c"
  "uaaEndpointURL (configureHTTPClient c) = uaaEndpointURL c"
  "apiEndpointURL (configureHTTPClient c) = apiEndpointURL c"
  by (simp_all add: configureHTTPClient_def Let_def)

text \<open>
  C10. \<^verbatim>\<open>Validate\<close> returns nil exactly when one of client id, user name and token is
  given, a client id other than \<^verbatim>\<open>cf\<close> comes with a secret, and a user name comes with a
  password. \<^verbatim>\<open>initConfig\<close> and \<^verbatim>\<open>New\<close> return the error of \<^verbatim>\<open>Validate\<close> on the
  config the options produced, before any request is sent or any client is built; an option
  that fails ends them even earlier.
\<close>

theorem Validate_nil_iff:
  "(Validate c = None \<longleftrightarrow>
      (clientID c \<noteq> [] \<or> username c \<noteq> [] \<or> oAuthToken c \<noteq> None)
      \<and> (clientID c \<noteq> DefaultClientID \<longrightarrow> clientSecret c \<noteq> [])
      \<and> (username c \<noteq> [] \<longrightarrow> password c \<noteq> []))
   \<and> (\<forall>cfg1 err. applyOptions cfg options = (None, cfg1) \<and> Validate cfg1 = Some err
          \<longrightarrow> initConfig w cfg options = (Err err, []))
   \<and> (\<forall>u cfg1 err. url_Parse L apiRootURL = Inr u
          \<and> applyOptions (New_cfg (TrimRight_slash (URL_String L u))) options = (None, cfg1)
          \<and> Validate cfg1 = Some err
          \<longrightarrow> New L w apiRootURL options = (Err err, []))
   \<and> (\<forall>cfg1 err. applyOptions cfg options = (Some err, cfg1)
          \<longrightarrow> initConfig w cfg options = (Err err, []))"
proof (intro conjI allI impI)
  show "Validate c = None \<longleftrightarrow>
      (clientID c \<noteq> [] \<or> username c \<noteq> [] \<or> oAuthToken c \<noteq> None)
      \<and> (clientID c \<noteq> DefaultClientID \<longrightarrow> clientSecret c \<noteq> [])
      \<and> (username c \<noteq> [] \<longrightarrow> password c \<noteq> [])"
    unfolding Validate_def by auto
next
  fix cfg1 err
  assume "applyOptions cfg options = (None, cfg1) \<and> Validate cfg1 = Some err"
  then show "initConfig w cfg options = (Err err, [])"
    by (simp add: initConfig_def)
next
  fix u cfg1 err
  assume "url_Parse L apiRootURL = Inr u
          \<and> applyOptions (New_cfg (TrimRight_slash (URL_String L u))) options = (None, cfg1)
          \<and> Validate cfg1 = Some err"
  then show "New L w apiRootURL options = (Err err, [])"
    by (simp add: New_def initConfig_def)
next
  fix cfg1 err
  assume "applyOptions cfg options = (Some err, cfg1)"
  then show "initConfig w cfg options = (Err err, [])"
    by (simp add: initConfig_def)
qed

theorem Validate_nil_iff_witness:
  "Validate (New_cfg ''https://api.example.org'') = None
   \<and> Validate ((New_cfg ''https://api.example.org'')\<lparr>username := ''admin'',
         grantType := GrantTypeAuthorizationCode\<rparr>)
       = Some (errors_New ''password is required when using user credentials'')
   \<and> New example_url example_world ''https://api.example.org'' [example_Username ''admin'']
       = (Err (errors_New ''password is required when using user credentials''), [])"
proof -
  let ?c = "(New_cfg ''https://api.example.org'')\<lparr>username := ''admin'',
         grantType := GrantTypeAuthorizationCode\<rparr>"
  have v: "Validate ?c = Some (errors_New ''password is required when using user credentials'')"
    by (simp add: Validate_def New_cfg_def DefaultClientID_def)
  have p: "url_Parse example_url ''https://api.example.org''
             = Inr (example_URL ''https'' ''api.example.org'' [] [])"
    by (simp add: example_url_def example_Parse_def)
  have s: "TrimRight_slash (URL_String example_url (example_URL ''https'' ''api.example.org'' [] []))
             = ''https://api.example.org''"
    by (simp add: example_url_def example_String_def example_URL_def TrimRight_slash_def)
  have a: "applyOptions (New_cfg (TrimRight_slash (URL_String example_url
               (example_URL ''https'' ''api.example.org'' [] [])))) [example_Username ''admin'']
             = (None, ?c)"
    by (simp add: s example_Username_def)
  from Validate_nil_iff [where c = "New_cfg ''https://api.example.org''" and L = example_url
      and apiRootURL = "''https://api.example.org''" and options = "[example_Username ''admin'']"
      and w = example_world and cfg = "New_cfg ''https://api.example.org''"]
  have "Validate (New_cfg ''https://api.example.org'') = None"
    and "New example_url example_world ''https://api.example.org'' [example_Username ''admin'']
       = (Err (errors_New ''password is required when using user credentials''), [])"
    using p a v by (simp_all add: New_cfg_def DefaultClientID_def)
  with v show ?thesis by simp
qed

text \<open>
  C3. \<^verbatim>\<open>HTTPAuthClient\<close> is documented to return the authenticated client, the one
  \<^verbatim>\<open>createHTTPAuthClient\<close> stores in \<^verbatim>\<open>httpAuthClient\<close>. It returns the field
  \<^verbatim>\<open>httpClient\<close>, as \<^verbatim>\<open>HTTPClient\<close> does: on a config whose two clients differ, the
  caller gets the client without the token transport.
\<close>

theorem HTTPAuthClient_returns_plain_client:
  "HTTPAuthClient c = HTTPClient c
   \<and> createHTTPAuthClient example_world (example_cfg\<lparr>httpClient := Some example_plain_client\<rparr>)
       = (Ok (example_cfg\<lparr>httpClient := Some example_plain_client,
                          httpAuthClient := Some example_auth_client\<rparr>),
          [Ev_NewAuthenticatedClient (Some example_plain_client)])
   \<and> HTTPAuthClient (example_cfg\<lparr>httpClient := Some example_plain_client,
                                  httpAuthClient := Some example_auth_client\<rparr>)
       = Some example_plain_client
   \<and> HTTPAuthClient (example_cfg\<lparr>httpClient := Some example_plain_client,
                                  httpAuthClient := Some example_auth_client\<rparr>)
       \<noteq> Some example_auth_client"
  by (simp add: HTTPAuthClient_def HTTPClient_def createHTTPAuthClient_def example_world_def
      example_plain_client_def example_auth_client_def)

text \<open>
  C6. When both \<^verbatim>\<open>loginEndpointURL\<close> and \<^verbatim>\<open>uaaEndpointURL\<close> are set,
  \<^verbatim>\<open>discoverAuthConfig\<close> sends no request and returns the config as it was; so a second
  discovery after one that filled both fields does nothing.
\<close>

theorem discoverAuthConfig_skipped:
  "(loginEndpointURL c \<noteq> [] \<and> uaaEndpointURL c \<noteq> [] \<longrightarrow> discoverAuthConfig w c = (Ok c, []))
   \<and> (\<forall>c' evs. discoverAuthConfig w c = (Ok c', evs)
          \<and> loginEndpointURL c' \<noteq> [] \<and> uaaEndpointURL c' \<noteq> []
          \<longrightarrow> discoverAuthConfig w c' = (Ok c', []))"
  by (simp add: discoverAuthConfig_def)

theorem discoverAuthConfig_skipped_witness:
  "discoverAuthConfig example_world
     (example_cfg\<lparr>loginEndpointURL := ''https://login.example.org'',
                  uaaEndpointURL := ''https://uaa.example.org''\<rparr>)
   = (Ok (example_cfg\<lparr>loginEndpointURL := ''https://login.example.org'',
                       uaaEndpointURL := ''https://uaa.example.org''\<rparr>), [])"
  using discoverAuthConfig_skipped [where w = example_world
      and c = "example_cfg\<lparr>loginEndpointURL := ''https://login.example.org'',
                  uaaEndpointURL := ''https://uaa.example.org''\<rparr>"]
  by simp

lemma discoverAuthConfig_request:
  assumes "loginEndpointURL c = [] \<or> uaaEndpointURL c = []"
    and "httpClient c = Some hc"
    and "NewRequestWithContext w ''GET'' (ToURL w c ''/'') = Inr req"
  shows "discoverAuthConfig w c =
     ((case Do w hc req of
         Inl e \<Rightarrow>
           Err (Errorf ''error while discovering token service URL: %w''
                  [Arg_w (Errorf ''error executing request, failed during HTTP request send: %w''
                            [Arg_w e])])
       | Inr resp \<Rightarrow>
           if \<not> IsStatusSuccess w (StatusCode resp)
           then Err (Errorf ''error while discovering token service URL: %w''
                       [Arg_w (DecodeError w resp)])
           else (case DecodeBody w resp of
                   Inl e \<Rightarrow>
                     Err (Errorf ''error while discovering token service URL: %w''
                            [Arg_w (Errorf ''failed to decode API root response: %w'' [Arg_w e])])
                 | Inr root \<Rightarrow>
                     Ok (c\<lparr>loginEndpointURL := Links_Login_Href root,
                            uaaEndpointURL := Links_Uaa_Href root,
                            sshOAuthClient := Links_AppSSH_Meta_OauthClient root\<rparr>))),
      [Ev_Do hc req])"
  using assms
  by (auto simp add: discoverAuthConfig_def globalAPIRoot_def split: sum.splits)

lemma initConfig_discovers:
  assumes o: "applyOptions cfg options = (None, cfg1)" and v: "Validate cfg1 = None"
    and n: "loginEndpointURL cfg1 = [] \<or> uaaEndpointURL cfg1 = []"
    and h: "httpClient (configureHTTPClient cfg1) = Some hc"
    and r: "NewRequestWithContext w ''GET'' (ToURL w cfg1 ''/'') = Inr req"
  shows "initConfig w cfg options =
     (case discoverAuthConfig w (configureHTTPClient cfg1) of
        (Err err, evs) \<Rightarrow> (Err err, evs)
      | (Panic, evs) \<Rightarrow> (Panic, evs)
      | (Ok cfg2, evs) \<Rightarrow> (fst (createHTTPAuthClient w cfg2), evs @ snd (createHTTPAuthClient w cfg2)))"
    and "discoverAuthConfig w (configureHTTPClient cfg1) =
     ((case Do w hc req of
         Inl e \<Rightarrow>
           Err (Errorf ''error while discovering token service URL: %w''
                  [Arg_w (Errorf ''error executing request, failed during HTTP request send: %w''
                            [Arg_w e])])
       | Inr resp \<Rightarrow>
           if \<not> IsStatusSuccess w (StatusCode resp)
           then Err (Errorf ''error while discovering token service URL: %w''
                       [Arg_w (DecodeError w resp)])
           else (case DecodeBody w resp of
                   Inl e \<Rightarrow>
                     Err (Errorf ''error while discovering token service URL: %w''
                            [Arg_w (Errorf ''failed to decode API root response: %w'' [Arg_w e])])
                 | Inr root \<Rightarrow>
                     Ok ((configureHTTPClient cfg1)\<lparr>loginEndpointURL := Links_Login_Href root,
                            uaaEndpointURL := Links_Uaa_Href root,
                            sshOAuthClient := Links_AppSSH_Meta_OauthClient root\<rparr>))),
      [Ev_Do hc req])"
proof -
  show "initConfig w cfg options =
     (case discoverAuthConfig w (configureHTTPClient cfg1) of
        (Err err, evs) \<Rightarrow> (Err err, evs)
      | (Panic, evs) \<Rightarrow> (Panic, evs)
      | (Ok cfg2, evs) \<Rightarrow> (fst (createHTTPAuthClient w cfg2), evs @ snd (createHTTPAuthClient w cfg2)))"
    using o v by (simp add: initConfig_def split: prod.splits result.splits)
  from n have x: "loginEndpointURL (configureHTTPClient cfg1) = []
               \<or> uaaEndpointURL (configureHTTPClient cfg1) = []"
    by (simp add: configureHTTPClient_frame)
  from r have y: "NewRequestWithContext w ''GET'' (ToURL w (configureHTTPClient cfg1) ''/'')
                        = Inr req"
    by (simp add: ToURL_def configureHTTPClient_frame)
  show "discoverAuthConfig w (configureHTTPClient cfg1) =
     ((case Do w hc req of
         Inl e \<Rightarrow>
           Err (Errorf ''error while discovering token service URL: %w''
                  [Arg_w (Errorf ''error executing request, failed during HTTP request send: %w''
                            [Arg_w e])])
       | Inr resp \<Rightarrow>
           if \<not> IsStatusSuccess w (StatusCode resp)
           then Err (Errorf ''error while discovering token service URL: %w''
                       [Arg_w (DecodeError w resp)])
           else (case DecodeBody w resp of
                   Inl e \<Rightarrow>
                     Err (Errorf ''error while discovering token service URL: %w''
                            [Arg_w (Errorf ''failed to decode API root response: %w'' [Arg_w e])])
                 | Inr root \<Rightarrow>
                     Ok ((configureHTTPClient cfg1)\<lparr>loginEndpointURL := Links_Login_Href root,
                            uaaEndpointURL := Links_Uaa_Href root,
                            sshOAuthClient := Links_AppSSH_Meta_OauthClient root\<rparr>))),
      [Ev_Do hc req])"
    by (rule discoverAuthConfig_request [OF x h y])
qed

text \<open>
  C5. When the options are applied and the config is valid and one of the two endpoints is
  not set, \<^verbatim>\<open>initConfig\<close> sends one GET to the API root, with the plain client of the
  config \<^verbatim>\<open>configureHTTPClient\<close> returns. A transport error, a status that is not a success,
  or a body that does not decode makes \<^verbatim>\<open>initConfig\<close> return the failure wrapped in
  \<^verbatim>\<open>error while discovering token service URL\<close>, after that one request and nothing more.
  When the answer is a success that decodes, \<^verbatim>\<open>initConfig\<close> goes on to the authenticated
  client with the login URL, the UAA URL and the SSH client id of the answer in the config,
  and that config is the one it returns. \<^verbatim>\<open>New\<close> returns what \<^verbatim>\<open>initConfig\<close> returns on
  the config of the parsed API root, and an API root that does not parse is an error before
  any request. \<^verbatim>\<open>configureHTTPClient\<close> returns a config that has a client and the
  endpoints it had; \<^verbatim>\<open>discoverAuthConfig\<close> itself sends that one GET whenever an endpoint
  is not set.
\<close>

theorem discovery_failure_is_fatal:
  "(applyOptions cfg options = (None, cfg') \<and> Validate cfg' = None
     \<and> (loginEndpointURL cfg' = [] \<or> uaaEndpointURL cfg' = [])
     \<and> httpClient (configureHTTPClient cfg') = Some hc
     \<and> NewRequestWithContext w ''GET'' (ToURL w cfg' ''/'') = Inr req
   \<longrightarrow> (\<forall>e. Do w hc req = Inl e \<longrightarrow>
           initConfig w cfg options
           = (Err (Errorf ''error while discovering token service URL: %w''
                     [Arg_w (Errorf ''error executing request, failed during HTTP request send: %w''
                               [Arg_w e])]),
              [Ev_Do hc req]))
     \<and> (\<forall>resp. Do w hc req = Inr resp \<and> \<not> IsStatusSuccess w (StatusCode resp) \<longrightarrow>
           initConfig w cfg options
           = (Err (Errorf ''error while discovering token service URL: %w''
                     [Arg_w (DecodeError w resp)]),
              [Ev_Do hc req]))
     \<and> (\<forall>resp e. Do w hc req = Inr resp \<and> IsStatusSuccess w (StatusCode resp)
           \<and> DecodeBody w resp = Inl e \<longrightarrow>
           initConfig w cfg options
           = (Err (Errorf ''error while discovering token service URL: %w''
                     [Arg_w (Errorf ''failed to decode API root response: %w'' [Arg_w e])]),
              [Ev_Do hc req]))
     \<and> (\<forall>resp root cl err. Do w hc req = Inr resp \<and> IsStatusSuccess w (StatusCode resp)
           \<and> DecodeBody w resp = Inr root
           \<and> NewAuthenticatedClient w (Some hc)
                ((configureHTTPClient cfg')\<lparr>loginEndpointURL := Links_Login_Href root,
                    uaaEndpointURL := Links_Uaa_Href root,
                    sshOAuthClient := Links_AppSSH_Meta_OauthClient root\<rparr>) = (cl, err) \<longrightarrow>
           initConfig w cfg options
           = ((case err of
                 None \<Rightarrow>
                   Ok ((configureHTTPClient cfg')\<lparr>loginEndpointURL := Links_Login_Href root,
                          uaaEndpointURL := Links_Uaa_Href root,
                          sshOAuthClient := Links_AppSSH_Meta_OauthClient root,
                          httpAuthClient := cl\<rparr>)
               | Some e \<Rightarrow> Err e),
              [Ev_Do hc req, Ev_NewAuthenticatedClient (Some hc)])))
   \<and> (\<forall>e. url_Parse L apiRootURL = Inl e \<longrightarrow>
         New L w apiRootURL options
         = (Err (Errorf ''expected an http(s) CF API root URI, but got %s: %w''
                   [Arg_s apiRootURL, Arg_w e]), []))
   \<and> (\<forall>u. url_Parse L apiRootURL = Inr u \<longrightarrow>
         New L w apiRootURL options
         = initConfig w (New_cfg (TrimRight_slash (URL_String L u))) options)
   \<and> (\<exists>cl. httpClient (configureHTTPClient cfg) = Some cl)
   \<and> loginEndpointURL (configureHTTPClient cfg) = loginEndpointURL cfg
   \<and> uaaEndpointURL (configureHTTPClient cfg) = uaaEndpointURL cfg
   \<and> apiEndpointURL (configureHTTPClient cfg) = apiEndpointURL cfg
   \<and> ((loginEndpointURL c = [] \<or> uaaEndpointURL c = []) \<and> httpClient c = Some hc
         \<and> NewRequestWithContext w ''GET'' (ToURL w c ''/'') = Inr req
       \<longrightarrow> snd (discoverAuthConfig w c) = [Ev_Do hc req])"
proof (intro conjI)
  show "applyOptions cfg options = (None, cfg') \<and> Validate cfg' = None
     \<and> (loginEndpointURL cfg' = [] \<or> uaaEndpointURL cfg' = [])
     \<and> httpClient (configureHTTPClient cfg') = Some hc
     \<and> NewRequestWithContext w ''GET'' (ToURL w cfg' ''/'') = Inr req
   \<longrightarrow> (\<forall>e. Do w hc req = Inl e \<longrightarrow>
           initConfig w cfg options
           = (Err (Errorf ''error while discovering token service URL: %w''
                     [Arg_w (Errorf ''error executing request, failed during HTTP request send: %w''
                               [Arg_w e])]),
              [Ev_Do hc req]))
     \<and> (\<forall>resp. Do w hc req = Inr resp \<and> \<not> IsStatusSuccess w (StatusCode resp) \<longrightarrow>
           initConfig w cfg options
           = (Err (Errorf ''error while discovering token service URL: %w''
                     [Arg_w (DecodeError w resp)]),
              [Ev_Do hc req]))
     \<and> (\<forall>resp e. Do w hc req = Inr resp \<and> IsStatusSuccess w (StatusCode resp)
           \<and> DecodeBody w resp = Inl e \<longrightarrow>
           initConfig w cfg options
           = (Err (Errorf ''error while discovering token service URL: %w''
                     [Arg_w (Errorf ''failed to decode API root response: %w'' [Arg_w e])]),
              [Ev_Do hc req]))
     \<and> (\<forall>resp root cl err. Do w hc req = Inr resp \<and> IsStatusSuccess w (StatusCode resp)
           \<and> DecodeBody w resp = Inr root
           \<and> NewAuthenticatedClient w (Some hc)
                ((configureHTTPClient cfg')\<lparr>loginEndpointURL := Links_Login_Href root,
                    uaaEndpointURL := Links_Uaa_Href root,
                    sshOAuthClient := Links_AppSSH_Meta_OauthClient root\<rparr>) = (cl, err) \<longrightarrow>
           initConfig w cfg options
           = ((case err of
                 None \<Rightarrow>
                   Ok ((configureHTTPClient cfg')\<lparr>loginEndpointURL := Links_Login_Href root,
                          uaaEndpointURL := Links_Uaa_Href root,
                          sshOAuthClient := Links_AppSSH_Meta_OauthClient root,
                          httpAuthClient := cl\<rparr>)
               | Some e \<Rightarrow> Err e),
              [Ev_Do hc req, Ev_NewAuthenticatedClient (Some hc)]))"
  proof (intro impI)
    assume a: "applyOptions cfg options = (None, cfg') \<and> Validate cfg' = None
     \<and> (loginEndpointURL cfg' = [] \<or> uaaEndpointURL cfg' = [])
     \<and> httpClient (configureHTTPClient cfg') = Some hc
     \<and> NewRequestWithContext w ''GET'' (ToURL w cfg' ''/'') = Inr req"
    then have i: "initConfig w cfg options =
       (case discoverAuthConfig w (configureHTTPClient cfg') of
          (Err err, evs) \<Rightarrow> (Err err, evs)
        | (Panic, evs) \<Rightarrow> (Panic, evs)
        | (Ok cfg2, evs) \<Rightarrow>
            (fst (createHTTPAuthClient w cfg2), evs @ snd (createHTTPAuthClient w cfg2)))"
      by (intro initConfig_discovers(1) [where hc = hc and req = req]) simp_all
    from a have d: "discoverAuthConfig w (configureHTTPClient cfg') =
     ((case Do w hc req of
         Inl e \<Rightarrow>
           Err (Errorf ''error while discovering token service URL: %w''
                  [Arg_w (Errorf ''error executing request, failed during HTTP request send: %w''
                            [Arg_w e])])
       | Inr resp \<Rightarrow>
           if \<not> IsStatusSuccess w (StatusCode resp)
           then Err (Errorf ''error while discovering token service URL: %w''
                       [Arg_w (DecodeError w resp)])
           else (case DecodeBody w resp of
                   Inl e \<Rightarrow>
                     Err (Errorf ''error while discovering token service URL: %w''
                            [Arg_w (Errorf ''failed to decode API root response: %w'' [Arg_w e])])
                 | Inr root \<Rightarrow>
                     Ok ((configureHTTPClient cfg')\<lparr>loginEndpointURL := Links_Login_Href root,
                            uaaEndpointURL := Links_Uaa_Href root,
                            sshOAuthClient := Links_AppSSH_Meta_OauthClient root\<rparr>))),
      [Ev_Do hc req])"
      by (intro initConfig_discovers(2) [where cfg = cfg and options = options]) simp_all
    from a have h: "httpClient (configureHTTPClient cfg') = Some hc" by simp
    show "(\<forall>e. Do w hc req = Inl e \<longrightarrow>
           initConfig w cfg options
           = (Err (Errorf ''error while discovering token service URL: %w''
                     [Arg_w (Errorf ''error executing request, failed during HTTP request send: %w''
                               [Arg_w e])]),
              [Ev_Do hc req]))
     \<and> (\<forall>resp. Do w hc req = Inr resp \<and> \<not> IsStatusSuccess w (StatusCode resp) \<longrightarrow>
           initConfig w cfg options
           = (Err (Errorf ''error while discovering token service URL: %w''
                     [Arg_w (DecodeError w resp)]),
              [Ev_Do hc req]))
     \<and> (\<forall>resp e. Do w hc req = Inr resp \<and> IsStatusSuccess w (StatusCode resp)
           \<and> DecodeBody w resp = Inl e \<longrightarrow>
           initConfig w cfg options
           = (Err (Errorf ''error while discovering token service URL: %w''
                     [Arg_w (Errorf ''failed to decode API root response: %w'' [Arg_w e])]),
              [Ev_Do hc req]))
     \<and> (\<forall>resp root cl err. Do w hc req = Inr resp \<and> IsStatusSuccess w (StatusCode resp)
           \<and> DecodeBody w resp = Inr root
           \<and> NewAuthenticatedClient w (Some hc)
                ((configureHTTPClient cfg')\<lparr>loginEndpointURL := Links_Login_Href root,
                    uaaEndpointURL := Links_Uaa_Href root,
                    sshOAuthClient := Links_AppSSH_Meta_OauthClient root\<rparr>) = (cl, err) \<longrightarrow>
           initConfig w cfg options
           = ((case err of
                 None \<Rightarrow>
                   Ok ((configureHTTPClient cfg')\<lparr>loginEndpointURL := Links_Login_Href root,
                          uaaEndpointURL := Links_Uaa_Href root,
                          sshOAuthClient := Links_AppSSH_Meta_OauthClient root,
                          httpAuthClient := cl\<rparr>)
               | Some e \<Rightarrow> Err e),
              [Ev_Do hc req, Ev_NewAuthenticatedClient (Some hc)]))"
      unfolding i d
      by (auto simp add: createHTTPAuthClient_def h split: option.splits)
  qed
next
  show "\<forall>e. url_Parse L apiRootURL = Inl e \<longrightarrow>
         New L w apiRootURL options
         = (Err (Errorf ''expected an http(s) CF API root URI, but got %s: %w''
                   [Arg_s apiRootURL, Arg_w e]), [])"
    by (simp add: New_def)
next
  show "\<forall>u. url_Parse L apiRootURL = Inr u \<longrightarrow>
         New L w apiRootURL options
         = initConfig w (New_cfg (TrimRight_slash (URL_String L u))) options"
    by (simp add: New_def)
next
  show "\<exists>cl. httpClient (configureHTTPClient cfg) = Some cl"
    by (rule configureHTTPClient_client)
next
  show "(loginEndpointURL c = [] \<or> uaaEndpointURL c = []) \<and> httpClient c = Some hc
         \<and> NewRequestWithContext w ''GET'' (ToURL w c ''/'') = Inr req
       \<longrightarrow> snd (discoverAuthConfig w c) = [Ev_Do hc req]"
    by (simp add: discoverAuthConfig_request)
qed (rule configureHTTPClient_frame)+


theorem discovery_failure_is_fatal_witness:
  "New example_url example_unreachable ''https://api.example.org'' []
   = (Err (Errorf ''error while discovering token service URL: %w''
             [Arg_w (Errorf ''error executing request, failed during HTTP request send: %w''
                       [Arg_w (Extern ''connection refused'')])]),
      [Ev_Do \<lparr>Transport = http_Transport (Some \<lparr>InsecureSkipVerify = False\<rparr>),
              CheckRedirect = internal_CheckRedirect, Timeout = DefaultRequestTimeout\<rparr>
         \<lparr>Method = ''GET'', URL = ''https://api.example.org/''\<rparr>])
   \<and> New example_url example_world ''https://api.example.org'' []
   = (Ok ((New_cfg ''https://api.example.org'')
            \<lparr>loginEndpointURL := ''https://login.example.org'',
             uaaEndpointURL := ''https://uaa.example.org'',
             sshOAuthClient := ''ssh-proxy'',
             httpClient := Some \<lparr>Transport = http_Transport (Some \<lparr>InsecureSkipVerify = False\<rparr>),
               CheckRedirect = internal_CheckRedirect, Timeout = DefaultRequestTimeout\<rparr>,
             httpAuthClient := Some \<lparr>Transport = oauth2_Transport
                 (http_Transport (Some \<lparr>InsecureSkipVerify = False\<rparr>)),
               CheckRedirect = internal_CheckRedirect, Timeout = DefaultRequestTimeout\<rparr>\<rparr>),
      [Ev_Do \<lparr>Transport = http_Transport (Some \<lparr>InsecureSkipVerify = False\<rparr>),
              CheckRedirect = internal_CheckRedirect, Timeout = DefaultRequestTimeout\<rparr>
         \<lparr>Method = ''GET'', URL = ''https://api.example.org/''\<rparr>,
       Ev_NewAuthenticatedClient
         (Some \<lparr>Transport = http_Transport (Some \<lparr>InsecureSkipVerify = False\<rparr>),
              CheckRedirect = internal_CheckRedirect, Timeout = DefaultRequestTimeout\<rparr>)])"
proof -
  let ?base = "New_cfg ''https://api.example.org''"
  let ?hc = "\<lparr>Transport = http_Transport (Some \<lparr>InsecureSkipVerify = False\<rparr>),
              CheckRedirect = internal_CheckRedirect, Timeout = DefaultRequestTimeout\<rparr>"
  let ?ac = "\<lparr>Transport = oauth2_Transport (http_Transport (Some \<lparr>InsecureSkipVerify = False\<rparr>)),
              CheckRedirect = internal_CheckRedirect, Timeout = DefaultRequestTimeout\<rparr>"
  let ?req = "\<lparr>Method = ''GET'', URL = ''https://api.example.org/''\<rparr>"
  let ?resp = "\<lparr>StatusCode = 200, Body = ''root''\<rparr>"
  have c: "configureHTTPClient ?base = ?base\<lparr>httpClient := Some ?hc\<rparr>"
    by (simp add: configureHTTPClient_def New_cfg_def Let_def)
  have p: "url_Parse example_url ''https://api.example.org''
             = Inr (example_URL ''https'' ''api.example.org'' [] [])"
    by (simp add: example_url_def example_Parse_def)
  have s: "TrimRight_slash (URL_String example_url (example_URL ''https'' ''api.example.org'' [] []))
             = ''https://api.example.org''"
    by (simp add: example_url_def example_String_def example_URL_def TrimRight_slash_def)
  have o: "applyOptions ?base [] = (None, ?base)" by simp
  have v: "Validate ?base = None"
    by (simp add: Validate_def New_cfg_def DefaultClientID_def)
  have n: "loginEndpointURL ?base = [] \<or> uaaEndpointURL ?base = []"
    by (simp add: New_cfg_def)
  have h: "httpClient (configureHTTPClient ?base) = Some ?hc"
    by (simp add: c)
  have r: "NewRequestWithContext w ''GET'' (ToURL w ?base ''/'') = Inr ?req"
    if "w = example_unreachable \<or> w = example_world" for w
    using that
    by (auto simp add: example_unreachable_def example_world_def ToURL_def New_cfg_def)
  have d1: "Do example_unreachable ?hc ?req = Inl (Extern ''connection refused'')"
    by (simp add: example_unreachable_def example_world_def)
  have d2: "Do example_world ?hc ?req = Inr ?resp"
    "IsStatusSuccess example_world (StatusCode ?resp)"
    "DecodeBody example_world ?resp = Inr example_Root"
    by (simp_all add: example_world_def)
  have a: "NewAuthenticatedClient example_world (Some ?hc)
             ((configureHTTPClient ?base)\<lparr>loginEndpointURL := Links_Login_Href example_Root,
                 uaaEndpointURL := Links_Uaa_Href example_Root,
                 sshOAuthClient := Links_AppSSH_Meta_OauthClient example_Root\<rparr>)
           = (Some ?ac, None)"
    by (simp add: example_world_def)
  note T1 = discovery_failure_is_fatal [where cfg = ?base and options = "[]" and cfg' = ?base
      and hc = ?hc and req = ?req and w = example_unreachable and L = example_url
      and apiRootURL = "''https://api.example.org''"]
  note T2 = discovery_failure_is_fatal [where cfg = ?base and options = "[]" and cfg' = ?base
      and hc = ?hc and req = ?req and w = example_world and L = example_url
      and apiRootURL = "''https://api.example.org''"]
  from T1 o v n h r [of example_unreachable] d1
  have "initConfig example_unreachable ?base []
        = (Err (Errorf ''error while discovering token service URL: %w''
             [Arg_w (Errorf ''error executing request, failed during HTTP request send: %w''
                       [Arg_w (Extern ''connection refused'')])]), [Ev_Do ?hc ?req])"
    by blast
  moreover from T1 p s
  have "New example_url example_unreachable ''https://api.example.org'' []
        = initConfig example_unreachable ?base []"
    by simp
  ultimately have 1: "New example_url example_unreachable ''https://api.example.org'' []
        = (Err (Errorf ''error while discovering token service URL: %w''
             [Arg_w (Errorf ''error executing request, failed during HTTP request send: %w''
                       [Arg_w (Extern ''connection refused'')])]), [Ev_Do ?hc ?req])"
    by simp
  from T2 o v n h r [of example_world] d2 a
  have "initConfig example_world ?base []
        = ((case None :: error option of
              None \<Rightarrow>
                Ok ((configureHTTPClient ?base)\<lparr>loginEndpointURL := Links_Login_Href example_Root,
                       uaaEndpointURL := Links_Uaa_Href example_Root,
                       sshOAuthClient := Links_AppSSH_Meta_OauthClient example_Root,
                       httpAuthClient := Some ?ac\<rparr>)
            | Some e \<Rightarrow> Err e),
           [Ev_Do ?hc ?req, Ev_NewAuthenticatedClient (Some ?hc)])"
    by blast
  moreover from T2 p s
  have "New example_url example_world ''https://api.example.org'' []
        = initConfig example_world ?base []"
    by simp
  ultimately have 2: "New example_url example_world ''https://api.example.org'' []
   = (Ok (?base\<lparr>loginEndpointURL := ''https://login.example.org'',
             uaaEndpointURL := ''https://uaa.example.org'',
             sshOAuthClient := ''ssh-proxy'',
             httpClient := Some ?hc, httpAuthClient := Some ?ac\<rparr>),
      [Ev_Do ?hc ?req, Ev_NewAuthenticatedClient (Some ?hc)])"
    unfolding c by (simp add: example_Root_def)
  from 1 2 show ?thesis by simp
qed

text \<open>
  C4. \<^verbatim>\<open>CreateOAuth2TokenSource\<close> takes one of three branches by the grant type, the three
  names being different strings. Under \<^verbatim>\<open>authorization_code\<close> it asks for a token with user
  name and password at once, on the token URL (with the login hint when an origin is set), and
  returns the error of that exchange and no token source when it fails; a panic of the
  exchange, as on a nil client, is a panic of the construction. A grant type that is none of
  the three gives the error \<^verbatim>\<open>unsupported OAuth2 grant type\<close>.
\<close>

theorem CreateOAuth2TokenSource_dispatch:
  "(grantType c = GrantTypeClientCredentials \<longrightarrow>
      CreateOAuth2TokenSource L w c
      = (Ok (clientcredentials_TokenSource (twoLeggedAuthConfigFn c) (httpClient c)), []))
   \<and> (grantType c = GrantTypeRefreshToken \<longrightarrow>
      CreateOAuth2TokenSource L w c
      = (Ok (oauth2_TokenSource (threeLeggedAuthConfigFn c) (oAuthToken c) (httpClient c)), []))
   \<and> (grantType c = GrantTypeAuthorizationCode \<longrightarrow>
      (\<exists>authConfig.
         authConfig = (threeLeggedAuthConfigFn c)\<lparr>Endpoint_TokenURL :=
            (if origin c \<noteq> []
             then addLoginHintToURL L (uaaEndpointURL c @ ''/oauth/token'') (origin c)
             else uaaEndpointURL c @ ''/oauth/token'')\<rparr>
         \<and> snd (CreateOAuth2TokenSource L w c)
             = [Ev_PasswordCredentialsToken authConfig (username c) (password c)]
         \<and> (\<forall>e. PasswordCredentialsToken w authConfig (httpClient c) (username c) (password c)
                  = Err e
               \<longrightarrow> fst (CreateOAuth2TokenSource L w c) = Err e)
         \<and> (PasswordCredentialsToken w authConfig (httpClient c) (username c) (password c)
                  = Panic
               \<longrightarrow> fst (CreateOAuth2TokenSource L w c) = Panic)
         \<and> (\<forall>t. PasswordCredentialsToken w authConfig (httpClient c) (username c) (password c)
                  = Ok t
               \<longrightarrow> fst (CreateOAuth2TokenSource L w c)
                   = Ok (oauth2_TokenSource authConfig (Some t) (httpClient c)))))
   \<and> (grantType c \<noteq> GrantTypeClientCredentials \<and> grantType c \<noteq> GrantTypeAuthorizationCode
        \<and> grantType c \<noteq> GrantTypeRefreshToken \<longrightarrow>
      CreateOAuth2TokenSource L w c
      = (Err (Errorf (''unsupported OAuth2 grant type '%s'' @ [CHR 0x27]) [Arg_s (grantType c)]),
         []))
   \<and> GrantTypeClientCredentials \<noteq> GrantTypeAuthorizationCode
   \<and> GrantTypeClientCredentials \<noteq> GrantTypeRefreshToken
   \<and> GrantTypeAuthorizationCode \<noteq> GrantTypeRefreshToken"
  by (auto simp add: CreateOAuth2TokenSource_def Let_def threeLeggedAuthConfigFn_def
      GrantTypeClientCredentials_def GrantTypeAuthorizationCode_def GrantTypeRefreshToken_def
      split: result.splits)

theorem CreateOAuth2TokenSource_dispatch_witness:
  "CreateOAuth2TokenSource example_url example_world example_login
   = (Err (Extern ''oauth2: cannot fetch token: 401 Unauthorized''),
      [Ev_PasswordCredentialsToken
         \<lparr>oauth2_ClientID = ''cf'', oauth2_ClientSecret = [], oauth2_Scopes = [],
          Endpoint_AuthURL = ''https://login.example.org/oauth/auth'',
          Endpoint_TokenURL = ''https://uaa.example.org/oauth/token''\<rparr> ''admin'' ''wrong''])
   \<and> CreateOAuth2TokenSource example_url example_world (example_login\<lparr>password := ''secret''\<rparr>)
   = (Ok (oauth2_TokenSource
            \<lparr>oauth2_ClientID = ''cf'', oauth2_ClientSecret = [], oauth2_Scopes = [],
             Endpoint_AuthURL = ''https://login.example.org/oauth/auth'',
             Endpoint_TokenURL = ''https://uaa.example.org/oauth/token''\<rparr>
            (Some example_Token) (Some example_plain_client)),
      [Ev_PasswordCredentialsToken
         \<lparr>oauth2_ClientID = ''cf'', oauth2_ClientSecret = [], oauth2_Scopes = [],
          Endpoint_AuthURL = ''https://login.example.org/oauth/auth'',
          Endpoint_TokenURL = ''https://uaa.example.org/oauth/token''\<rparr> ''admin'' ''secret''])
   \<and> fst (CreateOAuth2TokenSource example_url example_world (example_login\<lparr>httpClient := None\<rparr>))
   = Panic
   \<and> CreateOAuth2TokenSource example_url example_world (example_login\<lparr>grantType := ''password''\<rparr>)
   = (Err (Errorf (''unsupported OAuth2 grant type '%s'' @ [CHR 0x27]) [Arg_s ''password'']), [])"
proof -
  let ?a = "\<lparr>oauth2_ClientID = ''cf'', oauth2_ClientSecret = [], oauth2_Scopes = [],
          Endpoint_AuthURL = ''https://login.example.org/oauth/auth'',
          Endpoint_TokenURL = ''https://uaa.example.org/oauth/token''\<rparr>"
  let ?c2 = "example_login\<lparr>password := ''secret''\<rparr>"
  let ?c3 = "example_login\<lparr>httpClient := None\<rparr>"
  let ?c4 = "example_login\<lparr>grantType := ''password''\<rparr>"
  have l: "example_login
           = \<lparr>apiEndpointURL = ''https://api.example.org'',
              loginEndpointURL = ''https://login.example.org'',
              uaaEndpointURL = ''https://uaa.example.org'',
              sshOAuthClient = ''ssh-proxy'', username = ''admin'', password = ''wrong'',
              clientID = ''cf'', clientSecret = [], grantType = ''authorization_code'',
              origin = [], scopes = [], oAuthToken = None,
              httpClient = Some example_plain_client, httpAuthClient = None,
              skipTLSValidation = False, requestTimeout = 30000000000,
              userAgent = ''Go-CF-Client/3.0''\<rparr>"
    by (simp add: example_login_def example_cfg_def New_cfg_def DefaultClientID_def
        DefaultSSHClientID_def DefaultRequestTimeout_def DefaultUserAgent_def
        GrantTypeAuthorizationCode_def)
  have p: "PasswordCredentialsToken example_world x (Some example_plain_client) ''admin'' ''wrong''
           = Err (Extern ''oauth2: cannot fetch token: 401 Unauthorized'')"
    "PasswordCredentialsToken example_world x (Some example_plain_client) ''admin'' ''secret''
           = Ok example_Token"
    "PasswordCredentialsToken example_world x None ''admin'' ''wrong'' = Panic" for x
    by (simp_all add: example_world_def)
  have 1: "CreateOAuth2TokenSource example_url example_world example_login
   = (Err (Extern ''oauth2: cannot fetch token: 401 Unauthorized''),
      [Ev_PasswordCredentialsToken ?a ''admin'' ''wrong''])"
    using CreateOAuth2TokenSource_dispatch [where c = example_login and L = example_url
      and w = example_world]
    unfolding l
    by (simp add: prod_eq_iff threeLeggedAuthConfigFn_def GrantTypeAuthorizationCode_def p)
  have 2: "CreateOAuth2TokenSource example_url example_world ?c2
   = (Ok (oauth2_TokenSource ?a (Some example_Token) (Some example_plain_client)),
      [Ev_PasswordCredentialsToken ?a ''admin'' ''secret''])"
    using CreateOAuth2TokenSource_dispatch [where c = ?c2 and L = example_url
      and w = example_world]
    unfolding l
    by (simp add: prod_eq_iff threeLeggedAuthConfigFn_def GrantTypeAuthorizationCode_def p)
  have 3: "fst (CreateOAuth2TokenSource example_url example_world ?c3) = Panic"
    using CreateOAuth2TokenSource_dispatch [where c = ?c3 and L = example_url
      and w = example_world]
    unfolding l
    by (simp add: threeLeggedAuthConfigFn_def GrantTypeAuthorizationCode_def p)
  have 4: "CreateOAuth2TokenSource example_url example_world ?c4
   = (Err (Errorf (''unsupported OAuth2 grant type '%s'' @ [CHR 0x27]) [Arg_s ''password'']), [])"
    using CreateOAuth2TokenSource_dispatch [where c = ?c4 and L = example_url
      and w = example_world]
    by (simp add: GrantTypeClientCredentials_def GrantTypeAuthorizationCode_def
        GrantTypeRefreshToken_def)
  from 1 2 3 4 show ?thesis by simp
qed

subsection \<open>The login hint\<close>

lemma QueryEscape_append: "QueryEscape (a @ b) = QueryEscape a @ QueryEscape b"
  by (simp add: QueryEscape_def)

lemma QueryEscape_Sprintf_origin:
  "QueryEscape (Sprintf_origin org) = ''%7B%22origin%22%3A%22'' @ QueryEscape org @ ''%22%7D''"
  unfolding Sprintf_origin_def QueryEscape_append
  by (simp add: QueryEscape_def escape_byte_def shouldEscape_def upperhex_def less_eq_char_def)

lemma QueryEscape_login_hint: "QueryEscape ''login_hint'' = ''login_hint''"
  by (simp add: QueryEscape_def escape_byte_def shouldEscape_def upperhex_def less_eq_char_def)

lemma Encode_pairs_keyed: "Encode_pairs v = map Encode_pair (Encode_keyed v)"
proof -
  have "concat (map (\<lambda>(k, vs). map (\<lambda>x. QueryEscape k @ ''='' @ QueryEscape x) vs) ys)
        = map Encode_pair (concat (map (\<lambda>(k, vs). map (Pair k) vs) ys))" for ys
    by (induction ys) (auto simp add: Encode_pair_def)
  then show ?thesis
    by (simp add: Encode_pairs_def Encode_keyed_def)
qed

lemma sorted_three_way:
  fixes f :: "'a \<Rightarrow> 'k :: linorder"
  assumes "sorted (map f ys)"
  shows "ys = filter (\<lambda>y. f y < k) ys @ filter (\<lambda>y. f y = k) ys @ filter (\<lambda>y. k < f y) ys"
  using assms
proof (induction ys)
  case Nil
  then show ?case by simp
next
  case (Cons y ys)
  then have ih: "ys = filter (\<lambda>y. f y < k) ys @ filter (\<lambda>y. f y = k) ys @ filter (\<lambda>y. k < f y) ys"
    and le: "\<forall>z \<in> set ys. f y \<le> f z"
    by auto
  consider "f y < k" | "f y = k" | "k < f y" by (meson linorder_less_linear)
  then show ?case
  proof cases
    case 1
    then have "f y \<noteq> k" "\<not> k < f y" by auto
    with 1 ih show ?thesis by simp
  next
    case 2
    with le have "filter (\<lambda>y. f y < k) ys = []"
      by (auto simp add: filter_empty_conv)
    with 2 ih show ?thesis by simp
  next
    case 3
    with le have "filter (\<lambda>y. f y < k) ys = []" "filter (\<lambda>y. f y = k) ys = []"
      by (auto simp add: filter_empty_conv)
    with 3 ih show ?thesis by simp
  qed
qed

lemma sort_key_three_way:
  fixes f :: "'a \<Rightarrow> 'k :: linorder"
  shows "sort_key f xs = sort_key f (filter (\<lambda>y. f y < k) xs)
           @ filter (\<lambda>y. f y = k) xs @ sort_key f (filter (\<lambda>y. k < f y) xs)"
proof -
  have "sort_key f xs = filter (\<lambda>y. f y < k) (sort_key f xs)
          @ filter (\<lambda>y. f y = k) (sort_key f xs) @ filter (\<lambda>y. k < f y) (sort_key f xs)"
    by (rule sorted_three_way) simp
  moreover have "filter (\<lambda>y. f y = k) (sort_key f xs) = filter (\<lambda>y. f y = k) xs"
    by (rule sort_key_stable)
  moreover have "filter (\<lambda>y. f y < k) (sort_key f xs) = sort_key f (filter (\<lambda>y. f y < k) xs)"
    "filter (\<lambda>y. k < f y) (sort_key f xs) = sort_key f (filter (\<lambda>y. k < f y) xs)"
    by (rule filter_sort)+
  ultimately show ?thesis
    by (simp only:)
qed

lemma Encode_keyed_three_way:
  "Encode_keyed v = Encode_keyed (filter (\<lambda>e. fst e < k) v)
     @ concat (map (\<lambda>(k, vs). map (Pair k) vs) (filter (\<lambda>e. fst e = k) v))
     @ Encode_keyed (filter (\<lambda>e. k < fst e) v)"
  unfolding Encode_keyed_def
  by (subst sort_key_three_way [of fst v k]) simp

lemma Values_Add_filter_other:
  "filter (\<lambda>e. fst e < key) (Values_Add v key val) = filter (\<lambda>e. fst e < key) v"
  "filter (\<lambda>e. key < fst e) (Values_Add v key val) = filter (\<lambda>e. key < fst e) v"
  by (induction v key val rule: Values_Add.induct) simp_all

lemma Values_Add_filter_key:
  "distinct (map fst v) \<Longrightarrow>
   concat (map (\<lambda>(k, vs). map (Pair k) vs) (filter (\<lambda>e. fst e = key) (Values_Add v key val)))
   = concat (map (\<lambda>(k, vs). map (Pair k) vs) (filter (\<lambda>e. fst e = key) v)) @ [(key, val)]"
proof (induction v key val rule: Values_Add.induct)
  case (1 key val)
  then show ?case by simp
next
  case (2 k vs v key val)
  show ?case
  proof (cases "k = key")
    case True
    with "2.prems" have "filter (\<lambda>e. fst e = key) v = []"
      by (auto simp add: filter_empty_conv)
    with True show ?thesis by simp
  next
    case False
    with 2 show ?thesis by simp
  qed
qed

lemma Encode_keyed_Values_Add:
  assumes "distinct (map fst v)"
  shows "Encode_keyed (Values_Add v key val)
         = Encode_keyed (filter (\<lambda>e. fst e \<le> key) v) @ [(key, val)]
           @ Encode_keyed (filter (\<lambda>e. key < fst e) v)"
proof -
  let ?K = "\<lambda>xs. concat (map (\<lambda>(k, vs). map (Pair k) vs) xs)"
  have le: "Encode_keyed (filter (\<lambda>e. fst e \<le> key) v)
            = Encode_keyed (filter (\<lambda>e. fst e < key) v) @ ?K (filter (\<lambda>e. fst e = key) v)"
  proof -
    have "filter (\<lambda>e. fst e < key) (filter (\<lambda>e. fst e \<le> key) v) = filter (\<lambda>e. fst e < key) v"
      "filter (\<lambda>e. fst e = key) (filter (\<lambda>e. fst e \<le> key) v) = filter (\<lambda>e. fst e = key) v"
      "filter (\<lambda>e. key < fst e) (filter (\<lambda>e. fst e \<le> key) v) = []"
      by (auto simp add: filter_empty_conv intro: filter_cong)
    with Encode_keyed_three_way [of "filter (\<lambda>e. fst e \<le> key) v" key]
    show ?thesis by (simp add: Encode_keyed_def)
  qed
  have "Encode_keyed (Values_Add v key val)
        = Encode_keyed (filter (\<lambda>e. fst e < key) v)
          @ (?K (filter (\<lambda>e. fst e = key) v) @ [(key, val)])
          @ Encode_keyed (filter (\<lambda>e. key < fst e) v)"
    using Encode_keyed_three_way [of "Values_Add v key val" key]
    by (simp only: Values_Add_filter_other Values_Add_filter_key [OF assms])
  with le show ?thesis by simp
qed

lemma Encode_keyed_keys: "fst ` set (Encode_keyed v) \<subseteq> fst ` set v"
  by (force simp add: Encode_keyed_def)

lemma Encode_keyed_sorted: "sorted (map fst (Encode_keyed v))"
proof -
  have "sorted (map fst (concat (map (\<lambda>(k, vs). map (Pair k) vs) ys)))"
    if "sorted (map fst ys)" for ys :: Values
    using that
  proof (induction ys)
    case Nil
    then show ?case by simp
  next
    case (Cons y ys)
    obtain k vs where y: "y = (k, vs)" by (cases y)
    from Cons.prems y have "\<forall>z \<in> set ys. k \<le> fst z" by auto
    then have "\<forall>z \<in> set (concat (map (\<lambda>(k, vs). map (Pair k) vs) ys)). k \<le> fst z"
      by force
    moreover have "sorted (map (\<lambda>x. k) vs)"
      by (induction vs) auto
    ultimately show ?case
      using Cons y by (auto simp add: sorted_append comp_def)
  qed
  from this [of "sort_key fst v"] show ?thesis
    by (simp add: Encode_keyed_def)
qed

lemma Encode_keyed_mset:
  "mset (Encode_keyed v) = (\<Sum>e\<in>#mset v. mset (map (Pair (fst e)) (snd e)))"
proof -
  have "mset (concat (map (\<lambda>(k, vs). map (Pair k) vs) ys))
        = (\<Sum>e\<in>#mset ys. mset (map (Pair (fst e)) (snd e)))" for ys :: Values
    by (induction ys) (auto simp add: case_prod_beta)
  from this [of "sort_key fst v"] show ?thesis
    by (simp add: Encode_keyed_def)
qed


lemma Encode_keyed_pairs_mset:
  "mset (Encode_keyed v) = mset (concat (map (\<lambda>(k, vs). map (Pair k) vs) v))"
proof -
  have "mset (concat (map (\<lambda>(k, vs). map (Pair k) vs) ys))
        = (\<Sum>e\<in>#mset ys. mset (map (Pair (fst e)) (snd e)))" for ys :: Values
    by (induction ys) (auto simp add: case_prod_beta)
  then show ?thesis
    by (simp add: Encode_keyed_mset)
qed

lemma Values_Add_pairs_mset:
  "mset (concat (map (\<lambda>(k, vs). map (Pair k) vs) (Values_Add v key val)))
   = mset (concat (map (\<lambda>(k, vs). map (Pair k) vs) v)) + {#(key, val)#}"
  by (induction v key val rule: Values_Add.induct) simp_all

text \<open>
  C7, amended. \<^verbatim>\<open>addLoginHintToURL\<close> returns a token URL that \<^verbatim>\<open>url.Parse\<close> rejects as it
  is, with no login hint. For a token URL that parses, it returns the parsed URL printed with a
  new query, and the rest of the URL as \<^verbatim>\<open>url.Parse\<close> read it. The new query is written
  from a list of pairs of key and value, each pair as \<^verbatim>\<open>key=value\<close> with both escaped, the
  pairs joined by \<^verbatim>\<open>&\<close>. That list is sorted by key; it holds the pairs of the old query and
  one more pair, \<^verbatim>\<open>login_hint\<close> with the JSON object of the origin, which is written
  \<^verbatim>\<open>login_hint=%7B%22origin%22%3A%22\<close>, the escaped origin, \<^verbatim>\<open>%22%7D\<close>. When the old query
  has every key once, the list is exactly: the pairs of the old query whose key is at most
  \<^verbatim>\<open>login_hint\<close>, in the order \<^verbatim>\<open>Values.Encode\<close> writes them, then the new pair, then the
  pairs of the old query with a greater key; so a login hint that the old query had already is
  kept, before the new one. With no old query the new query is the new pair alone. The
  authorization-code flow calls \<^verbatim>\<open>addLoginHintToURL\<close> on \<^verbatim>\<open>uaaEndpointURL\<close> followed by
  \<^verbatim>\<open>/oauth/token\<close> only when the origin is not empty, uses that URL unchanged otherwise, and
  sends the password grant to the URL it got.
\<close>

theorem addLoginHintToURL_appends_hint:
  "(\<forall>e. url_Parse L tokenURL = Inl e \<longrightarrow> addLoginHintToURL L tokenURL org = tokenURL)
   \<and> (\<forall>u. url_Parse L tokenURL = Inr u \<longrightarrow>
         (\<exists>ps. addLoginHintToURL L tokenURL org
                = URL_String L (u\<lparr>RawQuery := Join (map Encode_pair ps) ''&''\<rparr>)
              \<and> sorted (map fst ps)
              \<and> mset ps = mset (concat (map (\<lambda>(k, vs). map (Pair k) vs) (URL_Query L u)))
                           + {#(''login_hint'', Sprintf_origin org)#}
              \<and> (distinct (map fst (URL_Query L u)) \<longrightarrow>
                   ps = Encode_keyed [e\<leftarrow>URL_Query L u. fst e \<le> ''login_hint'']
                        @ [(''login_hint'', Sprintf_origin org)]
                        @ Encode_keyed [e\<leftarrow>URL_Query L u. ''login_hint'' < fst e])))
   \<and> Encode_pair (''login_hint'', Sprintf_origin org)
     = ''login_hint=%7B%22origin%22%3A%22'' @ QueryEscape org @ ''%22%7D''
   \<and> sorted (map fst (Encode_keyed v))
   \<and> mset (Encode_keyed v) = mset (concat (map (\<lambda>(k, vs). map (Pair k) vs) v))
   \<and> Values_Encode v = Join (map Encode_pair (Encode_keyed v)) ''&''
   \<and> (\<forall>u. url_Parse L tokenURL = Inr u \<and> URL_Query L u = [] \<longrightarrow>
         addLoginHintToURL L tokenURL org
         = URL_String L (u\<lparr>RawQuery :=
             ''login_hint=%7B%22origin%22%3A%22'' @ QueryEscape org @ ''%22%7D''\<rparr>))
   \<and> (grantType c = GrantTypeAuthorizationCode \<longrightarrow>
         snd (CreateOAuth2TokenSource L w c)
         = [Ev_PasswordCredentialsToken
              ((threeLeggedAuthConfigFn c)\<lparr>Endpoint_TokenURL :=
                 (if origin c = [] then uaaEndpointURL c @ ''/oauth/token''
                  else addLoginHintToURL L (uaaEndpointURL c @ ''/oauth/token'') (origin c))\<rparr>)
              (username c) (password c)])"
proof (intro conjI allI impI)
  fix e
  assume "url_Parse L tokenURL = Inl e"
  then show "addLoginHintToURL L tokenURL org = tokenURL"
    by (simp add: addLoginHintToURL_def)
next
  fix u
  assume p: "url_Parse L tokenURL = Inr u"
  let ?q = "Values_Add (URL_Query L u) ''login_hint'' (Sprintf_origin org)"
  from p have "addLoginHintToURL L tokenURL org
      = URL_String L (u\<lparr>RawQuery := Join (map Encode_pair (Encode_keyed ?q)) ''&''\<rparr>)"
    by (simp add: addLoginHintToURL_def Values_Encode_def Encode_pairs_keyed)
  moreover have "sorted (map fst (Encode_keyed ?q))"
    by (rule Encode_keyed_sorted)
  moreover have "mset (Encode_keyed ?q)
      = mset (concat (map (\<lambda>(k, vs). map (Pair k) vs) (URL_Query L u)))
        + {#(''login_hint'', Sprintf_origin org)#}"
    by (simp only: Encode_keyed_pairs_mset Values_Add_pairs_mset)
  moreover have "distinct (map fst (URL_Query L u)) \<longrightarrow>
      Encode_keyed ?q = Encode_keyed [e\<leftarrow>URL_Query L u. fst e \<le> ''login_hint'']
                        @ [(''login_hint'', Sprintf_origin org)]
                        @ Encode_keyed [e\<leftarrow>URL_Query L u. ''login_hint'' < fst e]"
    by (intro impI) (rule Encode_keyed_Values_Add)
  ultimately show "\<exists>ps. addLoginHintToURL L tokenURL org
                = URL_String L (u\<lparr>RawQuery := Join (map Encode_pair ps) ''&''\<rparr>)
              \<and> sorted (map fst ps)
              \<and> mset ps = mset (concat (map (\<lambda>(k, vs). map (Pair k) vs) (URL_Query L u)))
                           + {#(''login_hint'', Sprintf_origin org)#}
              \<and> (distinct (map fst (URL_Query L u)) \<longrightarrow>
                   ps = Encode_keyed [e\<leftarrow>URL_Query L u. fst e \<le> ''login_hint'']
                        @ [(''login_hint'', Sprintf_origin org)]
                        @ Encode_keyed [e\<leftarrow>URL_Query L u. ''login_hint'' < fst e])"
    by blast
next
  show "Encode_pair (''login_hint'', Sprintf_origin org)
     = ''login_hint=%7B%22origin%22%3A%22'' @ QueryEscape org @ ''%22%7D''"
    by (simp add: Encode_pair_def QueryEscape_login_hint QueryEscape_Sprintf_origin)
next
  show "sorted (map fst (Encode_keyed v))"
    by (rule Encode_keyed_sorted)
next
  show "mset (Encode_keyed v) = mset (concat (map (\<lambda>(k, vs). map (Pair k) vs) v))"
    by (rule Encode_keyed_pairs_mset)
next
  show "Values_Encode v = Join (map Encode_pair (Encode_keyed v)) ''&''"
    by (simp add: Values_Encode_def Encode_pairs_keyed)
next
  fix u
  assume "url_Parse L tokenURL = Inr u \<and> URL_Query L u = []"
  then show "addLoginHintToURL L tokenURL org
         = URL_String L (u\<lparr>RawQuery :=
             ''login_hint=%7B%22origin%22%3A%22'' @ QueryEscape org @ ''%22%7D''\<rparr>)"
    by (simp add: addLoginHintToURL_def Values_Encode_def Encode_pairs_def
        QueryEscape_login_hint QueryEscape_Sprintf_origin)
next
  assume "grantType c = GrantTypeAuthorizationCode"
  then show "snd (CreateOAuth2TokenSource L w c)
         = [Ev_PasswordCredentialsToken
              ((threeLeggedAuthConfigFn c)\<lparr>Endpoint_TokenURL :=
                 (if origin c = [] then uaaEndpointURL c @ ''/oauth/token''
                  else addLoginHintToURL L (uaaEndpointURL c @ ''/oauth/token'') (origin c))\<rparr>)
              (username c) (password c)]"
    by (simp add: CreateOAuth2TokenSource_def Let_def threeLeggedAuthConfigFn_def
        GrantTypeClientCredentials_def GrantTypeAuthorizationCode_def)
qed

theorem addLoginHintToURL_appends_hint_witness:
  "addLoginHintToURL example_url ''https://uaa.example.org/oauth/token?z=1&a=2'' ''uaa''
   = ''https://uaa.example.org/oauth/token?a=2&login_hint=%7B%22origin%22%3A%22uaa%22%7D&z=1''
   \<and> CreateOAuth2TokenSource example_url example_world (example_login\<lparr>origin := ''uaa''\<rparr>)
   = (Err (Extern ''oauth2: cannot fetch token: 401 Unauthorized''),
      [Ev_PasswordCredentialsToken
         \<lparr>oauth2_ClientID = ''cf'', oauth2_ClientSecret = [], oauth2_Scopes = [],
          Endpoint_AuthURL = ''https://login.example.org/oauth/auth'',
          Endpoint_TokenURL =
            ''https://uaa.example.org/oauth/token?login_hint=%7B%22origin%22%3A%22uaa%22%7D''\<rparr>
         ''admin'' ''wrong''])"
proof -
  let ?c = "example_login\<lparr>origin := ''uaa''\<rparr>"
  note T = addLoginHintToURL_appends_hint [where L = example_url
      and tokenURL = "''https://uaa.example.org/oauth/token?z=1&a=2''" and org = "''uaa''"
      and c = ?c and w = example_world]
  note T0 = addLoginHintToURL_appends_hint [where L = example_url
      and tokenURL = "''https://uaa.example.org/oauth/token''" and org = "''uaa''"]
  have e: "QueryEscape ''uaa'' = ''uaa''" "QueryEscape ''a'' = ''a''" "QueryEscape ''z'' = ''z''"
    "QueryEscape ''1'' = ''1''" "QueryEscape ''2'' = ''2''"
    by (simp_all add: QueryEscape_def escape_byte_def shouldEscape_def less_eq_char_def)
  have ea: "Encode_pair (''a'', ''2'') = ''a=2''" "Encode_pair (''z'', ''1'') = ''z=1''"
    by (simp_all add: Encode_pair_def e)
  have p: "url_Parse example_url ''https://uaa.example.org/oauth/token?z=1&a=2''
           = Inr (example_URL ''https'' ''uaa.example.org'' ''/oauth/token'' ''z=1&a=2'')"
    by (simp add: example_url_def example_Parse_def)
  have q: "URL_Query example_url (example_URL ''https'' ''uaa.example.org'' ''/oauth/token'' ''z=1&a=2'')
           = [(''z'', [''1'']), (''a'', [''2''])]"
    by (simp add: example_url_def example_Query_def example_URL_def)
  have o: "[e\<leftarrow>[(''z'', [''1'']), (''a'', [''2''])]. fst e \<le> ''login_hint''] = [(''a'', [''2''])]"
    "[e\<leftarrow>[(''z'', [''1'']), (''a'', [''2''])]. ''login_hint'' < fst e] = [(''z'', [''1''])]"
    by (simp_all add: less_eq_char_def less_char_def)
  from T p obtain ps where
    r: "addLoginHintToURL example_url ''https://uaa.example.org/oauth/token?z=1&a=2'' ''uaa''
        = URL_String example_url
            ((example_URL ''https'' ''uaa.example.org'' ''/oauth/token'' ''z=1&a=2'')
               \<lparr>RawQuery := Join (map Encode_pair ps) ''&''\<rparr>)"
    and d: "distinct (map fst (URL_Query example_url
                (example_URL ''https'' ''uaa.example.org'' ''/oauth/token'' ''z=1&a=2''))) \<longrightarrow>
         ps = Encode_keyed [e\<leftarrow>URL_Query example_url
                   (example_URL ''https'' ''uaa.example.org'' ''/oauth/token'' ''z=1&a=2'').
                   fst e \<le> ''login_hint'']
              @ [(''login_hint'', Sprintf_origin ''uaa'')]
              @ Encode_keyed [e\<leftarrow>URL_Query example_url
                   (example_URL ''https'' ''uaa.example.org'' ''/oauth/token'' ''z=1&a=2'').
                   ''login_hint'' < fst e]"
    by blast
  from d have ps: "ps = [(''a'', ''2''), (''login_hint'', Sprintf_origin ''uaa''), (''z'', ''1'')]"
    unfolding q o by (simp add: Encode_keyed_def)
  from T have h: "Encode_pair (''login_hint'', Sprintf_origin ''uaa'')
     = ''login_hint=%7B%22origin%22%3A%22'' @ QueryEscape ''uaa'' @ ''%22%7D''"
    by blast
  have 1: "addLoginHintToURL example_url ''https://uaa.example.org/oauth/token?z=1&a=2'' ''uaa''
   = ''https://uaa.example.org/oauth/token?a=2&login_hint=%7B%22origin%22%3A%22uaa%22%7D&z=1''"
    unfolding r ps
    by (simp add: h e ea example_url_def example_String_def example_URL_def)
  have p0: "url_Parse example_url ''https://uaa.example.org/oauth/token''
           = Inr (example_URL ''https'' ''uaa.example.org'' ''/oauth/token'' [])"
    by (simp add: example_url_def example_Parse_def)
  have q0: "URL_Query example_url (example_URL ''https'' ''uaa.example.org'' ''/oauth/token'' []) = []"
    by (simp add: example_url_def example_Query_def example_URL_def)
  from T0 p0 q0 have "addLoginHintToURL example_url ''https://uaa.example.org/oauth/token'' ''uaa''
    = URL_String example_url ((example_URL ''https'' ''uaa.example.org'' ''/oauth/token'' [])
        \<lparr>RawQuery := ''login_hint=%7B%22origin%22%3A%22'' @ QueryEscape ''uaa'' @ ''%22%7D''\<rparr>)"
    by blast
  then have a: "addLoginHintToURL example_url ''https://uaa.example.org/oauth/token'' ''uaa''
   = ''https://uaa.example.org/oauth/token?login_hint=%7B%22origin%22%3A%22uaa%22%7D''"
    by (simp add: e example_url_def example_String_def example_URL_def)
  have g: "grantType ?c = GrantTypeAuthorizationCode"
    by (simp add: example_login_def)
  with T have "snd (CreateOAuth2TokenSource example_url example_world ?c)
         = [Ev_PasswordCredentialsToken
              ((threeLeggedAuthConfigFn ?c)\<lparr>Endpoint_TokenURL :=
                 (if origin ?c = [] then uaaEndpointURL ?c @ ''/oauth/token''
                  else addLoginHintToURL example_url (uaaEndpointURL ?c @ ''/oauth/token'')
                         (origin ?c))\<rparr>)
              (username ?c) (password ?c)]"
    by blast
  then have 2: "snd (CreateOAuth2TokenSource example_url example_world ?c)
   = [Ev_PasswordCredentialsToken
         \<lparr>oauth2_ClientID = ''cf'', oauth2_ClientSecret = [], oauth2_Scopes = [],
          Endpoint_AuthURL = ''https://login.example.org/oauth/auth'',
          Endpoint_TokenURL =
            ''https://uaa.example.org/oauth/token?login_hint=%7B%22origin%22%3A%22uaa%22%7D''\<rparr>
         ''admin'' ''wrong'']"
    by (simp add: example_login_def example_cfg_def New_cfg_def threeLeggedAuthConfigFn_def
        DefaultClientID_def a)
  have 3: "fst (CreateOAuth2TokenSource example_url example_world ?c)
         = Err (Extern ''oauth2: cannot fetch token: 401 Unauthorized'')"
    by (simp add: CreateOAuth2TokenSource_def Let_def example_login_def example_world_def
        GrantTypeClientCredentials_def GrantTypeAuthorizationCode_def)
  from 1 2 3 show ?thesis by (simp add: prod_eq_iff)
qed

text \<open>
  C7 as stated fails: \<^verbatim>\<open>10.0.0.1:8443/oauth/token\<close> does not parse (its first path segment
  has a colon), so with the origin \<^verbatim>\<open>uaa\<close> the token URL comes back unchanged and the
  password grant goes to it without a login hint.
\<close>

theorem addLoginHintToURL_unparsed_URL_unchanged:
  "addLoginHintToURL example_url ''10.0.0.1:8443/oauth/token'' ''uaa''
   = ''10.0.0.1:8443/oauth/token''
   \<and> snd (CreateOAuth2TokenSource example_url example_world
            (example_login\<lparr>uaaEndpointURL := ''10.0.0.1:8443'', origin := ''uaa''\<rparr>))
   = [Ev_PasswordCredentialsToken
         \<lparr>oauth2_ClientID = ''cf'', oauth2_ClientSecret = [], oauth2_Scopes = [],
          Endpoint_AuthURL = ''https://login.example.org/oauth/auth'',
          Endpoint_TokenURL = ''10.0.0.1:8443/oauth/token''\<rparr> ''admin'' ''wrong'']"
  by (simp add: addLoginHintToURL_def example_url_def example_Parse_def
      CreateOAuth2TokenSource_def Let_def threeLeggedAuthConfigFn_def example_login_def
      example_cfg_def New_cfg_def DefaultClientID_def
      GrantTypeClientCredentials_def GrantTypeAuthorizationCode_def)

subsection \<open>client/security_groups.go\<close>

lemma ListByQuery_loop_next_request:
  "next_request L c requestURL pages = Some nextURL \<Longrightarrow>
   ListByQuery_loop L c requestURL acc
   = ListByQuery_loop L c nextURL (acc @ concat (map Resources pages))"
proof (induction pages arbitrary: requestURL acc)
  case Nil
  then show ?case by simp
next
  case (Cons page pages)
  from Cons.prems obtain n where f: "fetch_page c requestURL = Some page"
    and p: "url_Parse L (Pagination_Next_Href page) = Inr n"
    and s: "URL_String L n \<noteq> []"
    and r: "next_request L c n pages = Some nextURL"
    by (auto split: if_splits sum.splits)
  from f have "ListByQuery_loop L c requestURL acc = ListByQuery_loop L c n (acc @ Resources page)"
    using p s
    by (subst ListByQuery_loop.simps) (auto simp add: fetch_page_def split: sum.splits if_splits)
  also have "\<dots> = ListByQuery_loop L c nextURL ((acc @ Resources page) @ concat (map Resources pages))"
    by (rule Cons.IH [OF r])
  finally show ?case by simp
qed

lemma ListByQuery_loop_last_page:
  "last_page L c requestURL page \<Longrightarrow>
   ListByQuery_loop L c requestURL acc = Some (acc @ Resources page, None)"
  by (subst ListByQuery_loop.simps)
     (auto simp add: last_page_def fetch_page_def split: sum.splits if_splits)


lemma ListByQuery_loop_result:
  assumes "ListByQuery_loop L c requestURL acc = Some y"
  shows "(snd y = None \<longrightarrow>
            (\<exists>pages nextURL page. next_request L c requestURL pages = Some nextURL
               \<and> last_page L c nextURL page
               \<and> fst y = acc @ concat (map Resources (pages @ [page]))))
         \<and> (snd y \<noteq> None \<longrightarrow> fst y = [])"
  using assms
proof (induction rule: ListByQuery_loop.raw_induct [rotated 1, consumes 1, case_names step])
  case (step loop L c requestURL acc y)
  show ?case
  proof (cases "fetch_page c requestURL")
    case None
    with step.hyps have "fst y = []" "snd y \<noteq> None"
      by (auto simp add: fetch_page_def split: sum.splits if_splits)
    then show ?thesis by blast
  next
    case (Some data)
    then obtain resp where d: "DoRequest c (''GET'', request_path requestURL) = Inr resp"
      "StatusCode resp = StatusOK" "json_Decode c (Body resp) = Inr data"
      by (auto simp add: fetch_page_def split: sum.splits if_splits)
    show ?thesis
    proof (cases "url_Parse L (Pagination_Next_Href data)")
      case (Inl err)
      with step.hyps d have "fst y = []" "snd y \<noteq> None" by auto
      then show ?thesis by blast
    next
      case (Inr n)
      show ?thesis
      proof (cases "URL_String L n = []")
        case True
        with step.hyps d Inr have y: "y = (acc @ Resources data, None)" by simp
        from Some Inr True have "last_page L c requestURL data"
          by (simp add: last_page_def)
        moreover have "next_request L c requestURL [] = Some requestURL" by simp
        ultimately show ?thesis using y
          by (metis (no_types) append_Nil append_Nil2 concat.simps fst_conv list.simps(8,9)
              option.distinct(1) snd_conv)
      next
        case False
        with step.hyps d Inr have l: "loop L c n (acc @ Resources data) = Some y" by simp
        note ih = step.IH [OF l]
        show ?thesis
        proof (intro conjI impI)
          assume "snd y = None"
          with ih obtain pages nx page where
            "next_request L c n pages = Some nx" "last_page L c nx page"
            "fst y = (acc @ Resources data) @ concat (map Resources (pages @ [page]))"
            by blast
          moreover from this Some Inr False
          have "next_request L c requestURL (data # pages) = Some nx" by simp
          ultimately show "\<exists>pages nextURL page. next_request L c requestURL pages = Some nextURL
               \<and> last_page L c nextURL page
               \<and> fst y = acc @ concat (map Resources (pages @ [page]))"
            by (intro exI [of _ "data # pages"] exI [of _ nx] exI [of _ page]) simp
        next
          assume "snd y \<noteq> None"
          with ih show "fst y = []" by simp
        qed
      qed
    qed
  qed
qed

lemma example_Parse_simps:
  "url_Parse example_url ''/v3/security_groups'' = Inr (example_URL [] [] ''/v3/security_groups'' [])"
  "url_Parse example_url [] = Inr (example_URL [] [] [] [])"
  "url_Parse example_url ''https://api.example.org/v3/security_groups?page=2&per_page=2''
   = Inr (example_URL ''https'' ''api.example.org'' ''/v3/security_groups'' ''page=2&per_page=2'')"
  "url_Parse example_url ''https://api.example.org/v3/security_groups?page=3&per_page=2''
   = Inr (example_URL ''https'' ''api.example.org'' ''/v3/security_groups'' ''page=3&per_page=2'')"
  "url_Parse example_url ''10.0.0.1:443/v3/security_groups?page=2''
   = Inl (Extern ''first path segment in URL cannot contain colon'')"
  by (simp_all add: example_url_def example_Parse_def)

text \<open>
  C1, amended. When the pages of a collection are fetched one after the other, each next
  link parsing to a URL that does not print as the empty string, and the last page has a next
  link that parses to a URL that does, \<^verbatim>\<open>ListByQuery\<close> returns the records of all pages
  in that order, each page once, and a nil error; and whenever it returns a nil error its result
  is of this form, whatever the records are. A page with an empty next link is a last page
  when \<^verbatim>\<open>url.Parse\<close> of the empty string prints as the empty string. A next link that \<^verbatim>\<open>url.Parse\<close>
  rejects ends the loop with an error and no records.
\<close>

theorem ListByQuery_concatenates_pages:
  "(next_request L c requestURL pages = Some nextURL \<and> last_page L c nextURL page
      \<longrightarrow> ListByQuery_loop L c requestURL acc
          = Some (acc @ concat (map Resources (pages @ [page])), None))
   \<and> (\<forall>u. url_Parse L ''/v3/security_groups'' = Inr u
          \<and> next_request L c (u\<lparr>RawQuery := Values_Encode query\<rparr>) pages = Some nextURL
          \<and> last_page L c nextURL page
      \<longrightarrow> ListByQuery L c query = Some (concat (map Resources (pages @ [page])), None))
   \<and> (\<forall>rs. ListByQuery_loop L c requestURL acc = Some (rs, None)
      \<longrightarrow> (\<exists>pages nextURL page. next_request L c requestURL pages = Some nextURL
             \<and> last_page L c nextURL page
             \<and> rs = acc @ concat (map Resources (pages @ [page]))))
   \<and> (\<forall>n. fetch_page c requestURL = Some page \<and> Pagination_Next_Href page = []
          \<and> url_Parse L [] = Inr n \<and> URL_String L n = []
      \<longrightarrow> last_page L c requestURL page)
   \<and> (\<forall>e. next_request L c requestURL pages = Some nextURL \<and> fetch_page c nextURL = Some page
          \<and> url_Parse L (Pagination_Next_Href page) = Inl e
      \<longrightarrow> ListByQuery_loop L c requestURL acc
          = Some ([], Some (Errorf ''error parsing next page URL: %w'' [Arg_w e])))"
proof (intro conjI allI impI)
  assume "next_request L c requestURL pages = Some nextURL \<and> last_page L c nextURL page"
  then show "ListByQuery_loop L c requestURL acc
          = Some (acc @ concat (map Resources (pages @ [page])), None)"
    using ListByQuery_loop_next_request [of L c requestURL pages nextURL acc]
      ListByQuery_loop_last_page [of L c nextURL page "acc @ concat (map Resources pages)"]
    by simp
next
  fix u
  assume "url_Parse L ''/v3/security_groups'' = Inr u
          \<and> next_request L c (u\<lparr>RawQuery := Values_Encode query\<rparr>) pages = Some nextURL
          \<and> last_page L c nextURL page"
  then show "ListByQuery L c query = Some (concat (map Resources (pages @ [page])), None)"
    using ListByQuery_loop_next_request [of L c "u\<lparr>RawQuery := Values_Encode query\<rparr>" pages nextURL "[]"]
      ListByQuery_loop_last_page [of L c nextURL page "concat (map Resources pages)"]
    by (simp add: ListByQuery_def)
next
  fix rs
  assume "ListByQuery_loop L c requestURL acc = Some (rs, None)"
  from ListByQuery_loop_result [OF this]
  show "\<exists>pages nextURL page. next_request L c requestURL pages = Some nextURL
             \<and> last_page L c nextURL page
             \<and> rs = acc @ concat (map Resources (pages @ [page]))"
    by simp
next
  fix n
  assume "fetch_page c requestURL = Some page \<and> Pagination_Next_Href page = []
          \<and> url_Parse L [] = Inr n \<and> URL_String L n = []"
  then show "last_page L c requestURL page"
    by (simp add: last_page_def)
next
  fix e
  assume a: "next_request L c requestURL pages = Some nextURL \<and> fetch_page c nextURL = Some page
          \<and> url_Parse L (Pagination_Next_Href page) = Inl e"
  then have "ListByQuery_loop L c requestURL acc
                 = ListByQuery_loop L c nextURL (acc @ concat (map Resources pages))"
    by (intro ListByQuery_loop_next_request) simp
  also from a have "\<dots> = Some ([], Some (Errorf ''error parsing next page URL: %w'' [Arg_w e]))"
    by (subst ListByQuery_loop.simps)
       (auto simp add: fetch_page_def split: sum.splits if_splits)
  finally show "ListByQuery_loop L c requestURL acc
          = Some ([], Some (Errorf ''error parsing next page URL: %w'' [Arg_w e]))" .
qed

theorem ListByQuery_concatenates_pages_witness:
  "ListByQuery example_url (example_sg 0) []
   = Some ([''sg-1'', ''sg-2'', ''sg-3'', ''sg-4'', ''sg-5''], None)"
proof -
  let ?u0 = "example_URL [] [] ''/v3/security_groups'' []"
  let ?u3 = "example_URL ''https'' ''api.example.org'' ''/v3/security_groups'' ''page=3&per_page=2''"
  have e: "Values_Encode [] = []"
    by (simp add: Values_Encode_def Encode_pairs_def)
  have n: "next_request example_url (example_sg 0) (?u0\<lparr>RawQuery := Values_Encode []\<rparr>)
             [example_page 1, example_page 2] = Some ?u3"
    by (simp add: e example_Parse_simps fetch_page_def request_path_def example_URL_def
        example_sg_def example_Decode_def example_page_def StatusOK_def)
       (simp add: example_url_def example_String_def)
  have l: "last_page example_url (example_sg 0) ?u3 (example_page 3)"
    by (simp add: last_page_def example_Parse_simps fetch_page_def request_path_def example_URL_def
        example_sg_def example_Decode_def example_page_def StatusOK_def)
       (simp add: example_url_def example_String_def)
  from ListByQuery_concatenates_pages [where L = example_url and c = "example_sg 0"
      and query = "[]" and pages = "[example_page 1, example_page 2]" and nextURL = ?u3
      and page = "example_page 3"] n l
  show ?thesis
    by (simp add: example_Parse_simps example_page_def)
qed

text \<open>
  C1 as stated fails: the first page of \<open>example_sg_badlink\<close> has two records and the next
  link \<^verbatim>\<open>10.0.0.1:443/v3/security_groups?page=2\<close>, which is not empty; the loop ends there,
  with an error and without the records of the page.
\<close>

theorem ListByQuery_ends_on_bad_link:
  "fetch_page example_sg_badlink (example_URL [] [] ''/v3/security_groups'' [])
   = Some \<lparr>Resources = [''sg-1'', ''sg-2''],
           Pagination_Next_Href = ''10.0.0.1:443/v3/security_groups?page=2''\<rparr>
   \<and> ListByQuery example_url example_sg_badlink []
   = Some ([], Some (Errorf ''error parsing next page URL: %w''
                      [Arg_w (Extern ''first path segment in URL cannot contain colon'')]))"
  by (simp add: ListByQuery_def ListByQuery_loop.simps example_Parse_simps fetch_page_def
      request_path_def example_URL_def example_sg_badlink_def example_Decode_def example_page_def
      StatusOK_def Values_Encode_def Encode_pairs_def)

text \<open>
  C2, amended. After any number of pages fetched, a response whose status is not 200 makes
  \<^verbatim>\<open>ListByQuery\<close> return at once no records and an error that carries the status code
  (and nothing else); a body that does not decode, or a request that fails, makes it return no
  records and an error that wraps the failure. Whenever \<^verbatim>\<open>ListByQuery\<close> returns an error
  it returns no records.
\<close>

theorem ListByQuery_all_or_nothing:
  "(\<forall>resp. next_request L c requestURL pages = Some nextURL
          \<and> DoRequest c (''GET'', request_path nextURL) = Inr resp
          \<and> StatusCode resp \<noteq> StatusOK
      \<longrightarrow> ListByQuery_loop L c requestURL acc
          = Some ([], Some (Errorf ''error listing security groups, response code: %d''
                             [Arg_d (StatusCode resp)])))
   \<and> (\<forall>resp e. next_request L c requestURL pages = Some nextURL
          \<and> DoRequest c (''GET'', request_path nextURL) = Inr resp
          \<and> StatusCode resp = StatusOK \<and> json_Decode c (Body resp) = Inl e
      \<longrightarrow> ListByQuery_loop L c requestURL acc
          = Some ([], Some (Errorf ''error parsing JSON from list security groups: %w''
                             [Arg_w e])))
   \<and> (\<forall>e. next_request L c requestURL pages = Some nextURL
          \<and> DoRequest c (''GET'', request_path nextURL) = Inl e
      \<longrightarrow> ListByQuery_loop L c requestURL acc
          = Some ([], Some (Errorf ''error requesting security groups: %w'' [Arg_w e])))
   \<and> (\<forall>rs e. ListByQuery_loop L c requestURL acc = Some (rs, Some e) \<longrightarrow> rs = [])
   \<and> (\<forall>rs e. ListByQuery L c query = Some (rs, Some e) \<longrightarrow> rs = [])"
proof (intro conjI allI impI)
  fix resp
  assume a: "next_request L c requestURL pages = Some nextURL
          \<and> DoRequest c (''GET'', request_path nextURL) = Inr resp
          \<and> StatusCode resp \<noteq> StatusOK"
  then have "ListByQuery_loop L c requestURL acc
                 = ListByQuery_loop L c nextURL (acc @ concat (map Resources pages))"
    by (intro ListByQuery_loop_next_request) simp
  also from a have "\<dots> = Some ([], Some (Errorf ''error listing security groups, response code: %d''
                             [Arg_d (StatusCode resp)]))"
    by (subst ListByQuery_loop.simps) simp
  finally show "ListByQuery_loop L c requestURL acc
          = Some ([], Some (Errorf ''error listing security groups, response code: %d''
                             [Arg_d (StatusCode resp)]))" .
next
  fix resp e
  assume a: "next_request L c requestURL pages = Some nextURL
          \<and> DoRequest c (''GET'', request_path nextURL) = Inr resp
          \<and> StatusCode resp = StatusOK \<and> json_Decode c (Body resp) = Inl e"
  then have "ListByQuery_loop L c requestURL acc
                 = ListByQuery_loop L c nextURL (acc @ concat (map Resources pages))"
    by (intro ListByQuery_loop_next_request) simp
  also from a have "\<dots> = Some ([], Some (Errorf ''error parsing JSON from list security groups: %w''
                             [Arg_w e]))"
    by (subst ListByQuery_loop.simps) simp
  finally show "ListByQuery_loop L c requestURL acc
          = Some ([], Some (Errorf ''error parsing JSON from list security groups: %w''
                             [Arg_w e]))" .
next
  fix e
  assume a: "next_request L c requestURL pages = Some nextURL
          \<and> DoRequest c (''GET'', request_path nextURL) = Inl e"
  then have "ListByQuery_loop L c requestURL acc
                 = ListByQuery_loop L c nextURL (acc @ concat (map Resources pages))"
    by (intro ListByQuery_loop_next_request) simp
  also from a have "\<dots> = Some ([], Some (Errorf ''error requesting security groups: %w'' [Arg_w e]))"
    by (subst ListByQuery_loop.simps) simp
  finally show "ListByQuery_loop L c requestURL acc
          = Some ([], Some (Errorf ''error requesting security groups: %w'' [Arg_w e]))" .
next
  fix rs e
  assume "ListByQuery_loop L c requestURL acc = Some (rs, Some e)"
  from ListByQuery_loop_result [OF this] show "rs = []" by simp
next
  fix rs e
  assume a: "ListByQuery L c query = Some (rs, Some e)"
  show "rs = []"
  proof (cases "url_Parse L ''/v3/security_groups''")
    case (Inl err)
    with a show ?thesis by (simp add: ListByQuery_def)
  next
    case (Inr u)
    with a have "ListByQuery_loop L c (u\<lparr>RawQuery := Values_Encode query\<rparr>) [] = Some (rs, Some e)"
      by (simp add: ListByQuery_def)
    from ListByQuery_loop_result [OF this] show ?thesis by simp
  qed
qed

theorem ListByQuery_all_or_nothing_witness:
  "ListByQuery example_url (example_sg 2) []
   = Some ([], Some (Errorf ''error listing security groups, response code: %d'' [Arg_d 500]))"
proof -
  let ?u0 = "example_URL [] [] ''/v3/security_groups'' []"
  let ?u2 = "example_URL ''https'' ''api.example.org'' ''/v3/security_groups'' ''page=2&per_page=2''"
  have e: "Values_Encode [] = []"
    by (simp add: Values_Encode_def Encode_pairs_def)
  have n: "next_request example_url (example_sg 2) ?u0 [example_page 1] = Some ?u2"
    by (simp add: example_Parse_simps fetch_page_def request_path_def example_URL_def
        example_sg_def example_Decode_def example_page_def StatusOK_def)
       (simp add: example_url_def example_String_def)
  have d: "DoRequest (example_sg 2) (''GET'', request_path ?u2)
           = Inr \<lparr>StatusCode = 500, Body = ''page 2''\<rparr>"
    by (simp add: example_sg_def request_path_def example_URL_def)
  from ListByQuery_all_or_nothing [where L = example_url and c = "example_sg 2"
      and requestURL = ?u0 and pages = "[example_page 1]" and nextURL = ?u2 and acc = "[]"] n d
  have "ListByQuery_loop example_url (example_sg 2) ?u0 []
        = Some ([], Some (Errorf ''error listing security groups, response code: %d'' [Arg_d 500]))"
    by (simp add: StatusOK_def)
  then show ?thesis
    by (simp add: ListByQuery_def example_Parse_simps e example_URL_def)
qed

text \<open>
  C2 as stated fails: the error does not carry the URL that failed. The server that answers
  500 on page 2 and the one that answers 500 on page 3 fail at different URLs and give the
  same error, made of the format and the status code.
\<close>

theorem ListByQuery_error_without_URL:
  "DoRequest (example_sg 2) (''GET'', ''/v3/security_groups?page=2&per_page=2'')
   = Inr \<lparr>StatusCode = 500, Body = ''page 2''\<rparr>
   \<and> ListByQuery example_url (example_sg 2) []
   = Some ([], Some (Errorf ''error listing security groups, response code: %d'' [Arg_d 500]))
   \<and> DoRequest (example_sg 3) (''GET'', ''/v3/security_groups?page=3&per_page=2'')
   = Inr \<lparr>StatusCode = 500, Body = ''page 3''\<rparr>
   \<and> ListByQuery example_url (example_sg 3) []
   = Some ([], Some (Errorf ''error listing security groups, response code: %d'' [Arg_d 500]))"
  by (simp add: ListByQuery_def ListByQuery_loop.simps example_Parse_simps
      request_path_def example_URL_def example_sg_def example_Decode_def example_page_def
      StatusOK_def Values_Encode_def Encode_pairs_def)
     (simp add: example_url_def example_String_def)

subsection \<open>operation/manifest.go\<close>

lemma map_of_omitempty:
  "distinct (map fst fs) \<Longrightarrow>
   map_of (omitempty fs) k = (case map_of fs k of Some (Some v) \<Rightarrow> Some v | _ \<Rightarrow> None)"
proof (induction fs)
  case Nil
  then show ?case by (simp add: omitempty_def List.map_filter_simps)
next
  case (Cons f fs)
  obtain k' v' where f: "f = (k', v')" by (cases f)
  from Cons.prems f have nk: "k' \<notin> fst ` set fs" and d: "distinct (map fst fs)" by auto
  have o: "omitempty (f # fs) = (case v' of None \<Rightarrow> omitempty fs | Some x \<Rightarrow> (k', x) # omitempty fs)"
    by (simp add: omitempty_def List.map_filter_simps f split: option.splits)
  from nk have "map_of fs k' = None"
    by (simp add: map_of_eq_None_iff)
  with Cons.IH [OF d] o f show ?case
    by (cases "k = k'") (auto split: option.splits)
qed

lemma keys_omitempty:
  "map fst (omitempty fs) = map fst (filter (\<lambda>(k, v). v \<noteq> None) fs)"
  by (induction fs) (auto simp add: omitempty_def List.map_filter_simps split: option.splits)

lemma omitempty_append: "omitempty (fs @ gs) = omitempty fs @ omitempty gs"
  by (simp add: omitempty_def List.map_filter_def)

lemma AppManifest_fields_keys:
  "map fst (AppManifest_fields mm a) =
     [''path'', ''buildpacks'', ''docker'', ''env'', ''random-route'', ''no-route'',
      ''default-route'', ''routes'', ''services'', ''sidecars'', ''processes'', ''stack'',
      ''metadata'', ''type'', ''command'', ''disk_quota'', ''health-check-type'',
      ''health-check-http-endpoint'', ''health-check-invocation-timeout'', ''instances'',
      ''log-rate-limit-per-second'', ''memory'', ''timeout'']"
  by (simp add: AppManifest_fields_def AppManifestProcess_fields_def)

lemma AppManifest_fields_distinct: "distinct (map fst (AppManifest_fields mm a))"
  unfolding AppManifest_fields_keys by simp

lemma map_of_Marshal_AppManifest:
  "map_of (Marshal_AppManifest mm a) k =
     (if k = ''name'' then Some (YString (Name a))
      else case map_of (AppManifest_fields mm a) k of Some (Some v) \<Rightarrow> Some v | _ \<Rightarrow> None)"
  by (simp add: Marshal_AppManifest_def map_of_omitempty [OF AppManifest_fields_distinct])

lemma Marshal_AppManifest_keys:
  "map fst (Marshal_AppManifest mm a)
   = ''name'' # map fst (filter (\<lambda>(k, v). v \<noteq> None) (AppManifest_fields mm a))"
  by (simp add: Marshal_AppManifest_def keys_omitempty)

lemma Marshal_AppManifest_distinct: "distinct (map fst (Marshal_AppManifest mm a))"
proof -
  have "''name'' \<notin> set (map fst (AppManifest_fields mm a))"
    unfolding AppManifest_fields_keys by simp
  then have "''name'' \<notin> set (map fst (filter (\<lambda>(k, v). v \<noteq> None) (AppManifest_fields mm a)))"
    by auto
  moreover have "distinct (map fst (filter (\<lambda>(k, v). v \<noteq> None) (AppManifest_fields mm a)))"
    by (rule distinct_map_filter) (rule AppManifest_fields_distinct)
  ultimately show ?thesis
    unfolding Marshal_AppManifest_keys by simp
qed

lemma Marshal_AppManifest_present:
  assumes "(k, v) \<in> set (AppManifest_fields mm a)"
  shows "(k \<in> fst ` set (Marshal_AppManifest mm a)) = (v \<noteq> None)"
proof -
  from assms have m: "map_of (AppManifest_fields mm a) k = Some v"
    by (simp add: AppManifest_fields_distinct)
  from assms have "k \<in> set (map fst (AppManifest_fields mm a))"
    by force
  then have n: "k \<noteq> ''name''"
    unfolding AppManifest_fields_keys by auto
  have "(k \<in> fst ` set (Marshal_AppManifest mm a)) = (map_of (Marshal_AppManifest mm a) k \<noteq> None)"
    by (simp add: map_of_eq_None_iff)
  also have "\<dots> = (v \<noteq> None)"
    using m n by (simp add: map_of_Marshal_AppManifest split: option.splits)
  finally show ?thesis .
qed

text \<open>
  C9, amended. Every optional attribute of an \<^verbatim>\<open>AppManifest\<close> is a pointer, nil when left
  out: the serialized manifest has the key \<^verbatim>\<open>name\<close> and, in the order of declaration,
  exactly the keys of the fields that are not nil. A setter that takes a value changes, in the
  serialized manifest, its own key only, which is then present with the given value; this
  covers the setters of the inlined process attributes, called on the manifest.
  \<^verbatim>\<open>WithDocker\<close> and \<^verbatim>\<open>WithMetadata\<close> take a pointer and store it as it is: with nil
  their key is left out. \<^verbatim>\<open>WithAppManifestProcess\<close> replaces the ten inlined process
  attributes by those of the process it is given, the nil ones too.
\<close>

theorem AppManifest_presence_markers:
  "map fst (AppManifest_fields mm a) =
     [''path'', ''buildpacks'', ''docker'', ''env'', ''random-route'', ''no-route'',
      ''default-route'', ''routes'', ''services'', ''sidecars'', ''processes'', ''stack'',
      ''metadata'', ''type'', ''command'', ''disk_quota'', ''health-check-type'',
      ''health-check-http-endpoint'', ''health-check-invocation-timeout'', ''instances'',
      ''log-rate-limit-per-second'', ''memory'', ''timeout'']
   \<and> map fst (Marshal_AppManifest mm a)
       = ''name'' # map fst (filter (\<lambda>(k, v). v \<noteq> None) (AppManifest_fields mm a))
   \<and> distinct (map fst (Marshal_AppManifest mm a))
   \<and> (\<forall>(k, v) \<in> set (AppManifest_fields mm a).
         (k \<in> fst ` set (Marshal_AppManifest mm a)) = (v \<noteq> None))
   \<and> map_of (Marshal_AppManifest mm (WithPath a x))
       = (map_of (Marshal_AppManifest mm a))(''path'' \<mapsto> YString x)
   \<and> map_of (Marshal_AppManifest mm (WithBuildpacks a xs))
       = (map_of (Marshal_AppManifest mm a))(''buildpacks'' \<mapsto> YStrings xs)
   \<and> map_of (Marshal_AppManifest mm (WithDocker a (Some d)))
       = (map_of (Marshal_AppManifest mm a))(''docker'' \<mapsto> Marshal_struct AppManifestDocker_fields d)
   \<and> map_of (Marshal_AppManifest mm (WithEnv a env))
       = (map_of (Marshal_AppManifest mm a))(''env'' \<mapsto> YMap (map (\<lambda>(k, v). (k, YString v)) env))
   \<and> map_of (Marshal_AppManifest mm (WithRandomRoute a b))
       = (map_of (Marshal_AppManifest mm a))(''random-route'' \<mapsto> YBool b)
   \<and> map_of (Marshal_AppManifest mm (WithNoRoute a b))
       = (map_of (Marshal_AppManifest mm a))(''no-route'' \<mapsto> YBool b)
   \<and> map_of (Marshal_AppManifest mm (WithDefaultRoute a b))
       = (map_of (Marshal_AppManifest mm a))(''default-route'' \<mapsto> YBool b)
   \<and> map_of (Marshal_AppManifest mm (WithRoutes a rs))
       = (map_of (Marshal_AppManifest mm a))(''routes'' \<mapsto> YSeq (map (Marshal_struct AppManifestRoute_fields) rs))
   \<and> map_of (Marshal_AppManifest mm (WithServices a ss))
       = (map_of (Marshal_AppManifest mm a))(''services'' \<mapsto> YSeq (map (Marshal_struct AppManifestService_fields) ss))
   \<and> map_of (Marshal_AppManifest mm (WithSidecars a cs))
       = (map_of (Marshal_AppManifest mm a))(''sidecars'' \<mapsto> YSeq (map (Marshal_struct AppManifestSideCar_fields) cs))
   \<and> map_of (Marshal_AppManifest mm (WithProcesses a ps))
       = (map_of (Marshal_AppManifest mm a))(''processes'' \<mapsto> YSeq (map (Marshal_struct AppManifestProcess_fields) ps))
   \<and> map_of (Marshal_AppManifest mm (WithStack a x))
       = (map_of (Marshal_AppManifest mm a))(''stack'' \<mapsto> YString x)
   \<and> map_of (Marshal_AppManifest mm (WithMetadata a (Some m)))
       = (map_of (Marshal_AppManifest mm a))(''metadata'' \<mapsto> mm m)
   \<and> map_of (Marshal_AppManifest mm (promoted WithType a x))
       = (map_of (Marshal_AppManifest mm a))(''type'' \<mapsto> YString x)
   \<and> map_of (Marshal_AppManifest mm (promoted WithCommand a x))
       = (map_of (Marshal_AppManifest mm a))(''command'' \<mapsto> YString x)
   \<and> map_of (Marshal_AppManifest mm (promoted WithDiskQuota a x))
       = (map_of (Marshal_AppManifest mm a))(''disk_quota'' \<mapsto> YString x)
   \<and> map_of (Marshal_AppManifest mm (promoted WithHealthCheckType a x))
       = (map_of (Marshal_AppManifest mm a))(''health-check-type'' \<mapsto> YString x)
   \<and> map_of (Marshal_AppManifest mm (promoted WithHealthCheckHTTPEndpoint a x))
       = (map_of (Marshal_AppManifest mm a))(''health-check-http-endpoint'' \<mapsto> YString x)
   \<and> map_of (Marshal_AppManifest mm (promoted WithHealthCheckInvocationTimeout a n))
       = (map_of (Marshal_AppManifest mm a))(''health-check-invocation-timeout'' \<mapsto> YUint n)
   \<and> map_of (Marshal_AppManifest mm (promoted WithInstances a n))
       = (map_of (Marshal_AppManifest mm a))(''instances'' \<mapsto> YUint n)
   \<and> map_of (Marshal_AppManifest mm (promoted WithLogRateLimitPerSecond a x))
       = (map_of (Marshal_AppManifest mm a))(''log-rate-limit-per-second'' \<mapsto> YString x)
   \<and> map_of (Marshal_AppManifest mm (promoted WithMemory a x))
       = (map_of (Marshal_AppManifest mm a))(''memory'' \<mapsto> YString x)
   \<and> map_of (Marshal_AppManifest mm (promoted WithTimeout a n))
       = (map_of (Marshal_AppManifest mm a))(''timeout'' \<mapsto> YUint n)
   \<and> map_of (Marshal_AppManifest mm (WithDocker a None))
       = (map_of (Marshal_AppManifest mm a))(''docker'' := None)
   \<and> map_of (Marshal_AppManifest mm (WithMetadata a None))
       = (map_of (Marshal_AppManifest mm a))(''metadata'' := None)
   \<and> Marshal_AppManifest mm (WithAppManifestProcess a p)
       = (''name'', YString (Name a)) # omitempty (take 13 (AppManifest_fields mm a))
         @ omitempty (AppManifestProcess_fields p)"
proof -
  have s: "map_of (Marshal_AppManifest mm (WithPath a x))
       = (map_of (Marshal_AppManifest mm a))(''path'' \<mapsto> YString x)
   \<and> map_of (Marshal_AppManifest mm (WithBuildpacks a xs))
       = (map_of (Marshal_AppManifest mm a))(''buildpacks'' \<mapsto> YStrings xs)
   \<and> map_of (Marshal_AppManifest mm (WithDocker a (Some d)))
       = (map_of (Marshal_AppManifest mm a))(''docker'' \<mapsto> Marshal_struct AppManifestDocker_fields d)
   \<and> map_of (Marshal_AppManifest mm (WithEnv a env))
       = (map_of (Marshal_AppManifest mm a))(''env'' \<mapsto> YMap (map (\<lambda>(k, v). (k, YString v)) env))
   \<and> map_of (Marshal_AppManifest mm (WithRandomRoute a b))
       = (map_of (Marshal_AppManifest mm a))(''random-route'' \<mapsto> YBool b)
   \<and> map_of (Marshal_AppManifest mm (WithNoRoute a b))
       = (map_of (Marshal_AppManifest mm a))(''no-route'' \<mapsto> YBool b)
   \<and> map_of (Marshal_AppManifest mm (WithDefaultRoute a b))
       = (map_of (Marshal_AppManifest mm a))(''default-route'' \<mapsto> YBool b)
   \<and> map_of (Marshal_AppManifest mm (WithRoutes a rs))
       = (map_of (Marshal_AppManifest mm a))(''routes'' \<mapsto> YSeq (map (Marshal_struct AppManifestRoute_fields) rs))
   \<and> map_of (Marshal_AppManifest mm (WithServices a ss))
       = (map_of (Marshal_AppManifest mm a))(''services'' \<mapsto> YSeq (map (Marshal_struct AppManifestService_fields) ss))
   \<and> map_of (Marshal_AppManifest mm (WithSidecars a cs))
       = (map_of (Marshal_AppManifest mm a))(''sidecars'' \<mapsto> YSeq (map (Marshal_struct AppManifestSideCar_fields) cs))
   \<and> map_of (Marshal_AppManifest mm (WithProcesses a ps))
       = (map_of (Marshal_AppManifest mm a))(''processes'' \<mapsto> YSeq (map (Marshal_struct AppManifestProcess_fields) ps))
   \<and> map_of (Marshal_AppManifest mm (WithStack a x))
       = (map_of (Marshal_AppManifest mm a))(''stack'' \<mapsto> YString x)
   \<and> map_of (Marshal_AppManifest mm (WithMetadata a (Some m)))
       = (map_of (Marshal_AppManifest mm a))(''metadata'' \<mapsto> mm m)
   \<and> map_of (Marshal_AppManifest mm (promoted WithType a x))
       = (map_of (Marshal_AppManifest mm a))(''type'' \<mapsto> YString x)
   \<and> map_of (Marshal_AppManifest mm (promoted WithCommand a x))
       = (map_of (Marshal_AppManifest mm a))(''command'' \<mapsto> YString x)
   \<and> map_of (Marshal_AppManifest mm (promoted WithDiskQuota a x))
       = (map_of (Marshal_AppManifest mm a))(''disk_quota'' \<mapsto> YString x)
   \<and> map_of (Marshal_AppManifest mm (promoted WithHealthCheckType a x))
       = (map_of (Marshal_AppManifest mm a))(''health-check-type'' \<mapsto> YString x)
   \<and> map_of (Marshal_AppManifest mm (promoted WithHealthCheckHTTPEndpoint a x))
       = (map_of (Marshal_AppManifest mm a))(''health-check-http-endpoint'' \<mapsto> YString x)
   \<and> map_of (Marshal_AppManifest mm (promoted WithHealthCheckInvocationTimeout a n))
       = (map_of (Marshal_AppManifest mm a))(''health-check-invocation-timeout'' \<mapsto> YUint n)
   \<and> map_of (Marshal_AppManifest mm (promoted WithInstances a n))
       = (map_of (Marshal_AppManifest mm a))(''instances'' \<mapsto> YUint n)
   \<and> map_of (Marshal_AppManifest mm (promoted WithLogRateLimitPerSecond a x))
       = (map_of (Marshal_AppManifest mm a))(''log-rate-limit-per-second'' \<mapsto> YString x)
   \<and> map_of (Marshal_AppManifest mm (promoted WithMemory a x))
       = (map_of (Marshal_AppManifest mm a))(''memory'' \<mapsto> YString x)
   \<and> map_of (Marshal_AppManifest mm (promoted WithTimeout a n))
       = (map_of (Marshal_AppManifest mm a))(''timeout'' \<mapsto> YUint n)
   \<and> map_of (Marshal_AppManifest mm (WithDocker a None))
       = (map_of (Marshal_AppManifest mm a))(''docker'' := None)
   \<and> map_of (Marshal_AppManifest mm (WithMetadata a None))
       = (map_of (Marshal_AppManifest mm a))(''metadata'' := None)"
    by (intro conjI ext;
        simp add: map_of_Marshal_AppManifest AppManifest_fields_def AppManifestProcess_fields_def
        WithPath_def WithBuildpacks_def WithDocker_def WithEnv_def WithRandomRoute_def
        WithNoRoute_def WithDefaultRoute_def WithRoutes_def WithServices_def WithSidecars_def
        WithProcesses_def WithStack_def WithMetadata_def promoted_def WithType_def WithCommand_def
        WithDiskQuota_def WithHealthCheckType_def WithHealthCheckHTTPEndpoint_def
        WithHealthCheckInvocationTimeout_def WithInstances_def WithLogRateLimitPerSecond_def
        WithMemory_def WithTimeout_def)
  have f: "AppManifest_fields mm (WithAppManifestProcess a p)
           = take 13 (AppManifest_fields mm a) @ AppManifestProcess_fields p"
    by (simp add: AppManifest_fields_def WithAppManifestProcess_def)
  have n: "Name (WithAppManifestProcess a p) = Name a"
    by (simp add: WithAppManifestProcess_def)
  have p: "Marshal_AppManifest mm (WithAppManifestProcess a p)
       = (''name'', YString (Name a)) # omitempty (take 13 (AppManifest_fields mm a))
         @ omitempty (AppManifestProcess_fields p)"
    by (simp only: Marshal_AppManifest_def f n omitempty_append)
  have q: "\<forall>(k, v) \<in> set (AppManifest_fields mm a).
         (k \<in> fst ` set (Marshal_AppManifest mm a)) = (v \<noteq> None)"
    using Marshal_AppManifest_present [of _ _ mm a] by blast
  from s p have sp: "map_of (Marshal_AppManifest mm (WithPath a x))
       = (map_of (Marshal_AppManifest mm a))(''path'' \<mapsto> YString x)
   \<and> map_of (Marshal_AppManifest mm (WithBuildpacks a xs))
       = (map_of (Marshal_AppManifest mm a))(''buildpacks'' \<mapsto> YStrings xs)
   \<and> map_of (Marshal_AppManifest mm (WithDocker a (Some d)))
       = (map_of (Marshal_AppManifest mm a))(''docker'' \<mapsto> Marshal_struct AppManifestDocker_fields d)
   \<and> map_of (Marshal_AppManifest mm (WithEnv a env))
       = (map_of (Marshal_AppManifest mm a))(''env'' \<mapsto> YMap (map (\<lambda>(k, v). (k, YString v)) env))
   \<and> map_of (Marshal_AppManifest mm (WithRandomRoute a b))
       = (map_of (Marshal_AppManifest mm a))(''random-route'' \<mapsto> YBool b)
   \<and> map_of (Marshal_AppManifest mm (WithNoRoute a b))
       = (map_of (Marshal_AppManifest mm a))(''no-route'' \<mapsto> YBool b)
   \<and> map_of (Marshal_AppManifest mm (WithDefaultRoute a b))
       = (map_of (Marshal_AppManifest mm a))(''default-route'' \<mapsto> YBool b)
   \<and> map_of (Marshal_AppManifest mm (WithRoutes a rs))
       = (map_of (Marshal_AppManifest mm a))(''routes'' \<mapsto> YSeq (map (Marshal_struct AppManifestRoute_fields) rs))
   \<and> map_of (Marshal_AppManifest mm (WithServices a ss))
       = (map_of (Marshal_AppManifest mm a))(''services'' \<mapsto> YSeq (map (Marshal_struct AppManifestService_fields) ss))
   \<and> map_of (Marshal_AppManifest mm (WithSidecars a cs))
       = (map_of (Marshal_AppManifest mm a))(''sidecars'' \<mapsto> YSeq (map (Marshal_struct AppManifestSideCar_fields) cs))
   \<and> map_of (Marshal_AppManifest mm (WithProcesses a ps))
       = (map_of (Marshal_AppManifest mm a))(''processes'' \<mapsto> YSeq (map (Marshal_struct AppManifestProcess_fields) ps))
   \<and> map_of (Marshal_AppManifest mm (WithStack a x))
       = (map_of (Marshal_AppManifest mm a))(''stack'' \<mapsto> YString x)
   \<and> map_of (Marshal_AppManifest mm (WithMetadata a (Some m)))
       = (map_of (Marshal_AppManifest mm a))(''metadata'' \<mapsto> mm m)
   \<and> map_of (Marshal_AppManifest mm (promoted WithType a x))
       = (map_of (Marshal_AppManifest mm a))(''type'' \<mapsto> YString x)
   \<and> map_of (Marshal_AppManifest mm (promoted WithCommand a x))
       = (map_of (Marshal_AppManifest mm a))(''command'' \<mapsto> YString x)
   \<and> map_of (Marshal_AppManifest mm (promoted WithDiskQuota a x))
       = (map_of (Marshal_AppManifest mm a))(''disk_quota'' \<mapsto> YString x)
   \<and> map_of (Marshal_AppManifest mm (promoted WithHealthCheckType a x))
       = (map_of (Marshal_AppManifest mm a))(''health-check-type'' \<mapsto> YString x)
   \<and> map_of (Marshal_AppManifest mm (promoted WithHealthCheckHTTPEndpoint a x))
       = (map_of (Marshal_AppManifest mm a))(''health-check-http-endpoint'' \<mapsto> YString x)
   \<and> map_of (Marshal_AppManifest mm (promoted WithHealthCheckInvocationTimeout a n))
       = (map_of (Marshal_AppManifest mm a))(''health-check-invocation-timeout'' \<mapsto> YUint n)
   \<and> map_of (Marshal_AppManifest mm (promoted WithInstances a n))
       = (map_of (Marshal_AppManifest mm a))(''instances'' \<mapsto> YUint n)
   \<and> map_of (Marshal_AppManifest mm (promoted WithLogRateLimitPerSecond a x))
       = (map_of (Marshal_AppManifest mm a))(''log-rate-limit-per-second'' \<mapsto> YString x)
   \<and> map_of (Marshal_AppManifest mm (promoted WithMemory a x))
       = (map_of (Marshal_AppManifest mm a))(''memory'' \<mapsto> YString x)
   \<and> map_of (Marshal_AppManifest mm (promoted WithTimeout a n))
       = (map_of (Marshal_AppManifest mm a))(''timeout'' \<mapsto> YUint n)
   \<and> map_of (Marshal_AppManifest mm (WithDocker a None))
       = (map_of (Marshal_AppManifest mm a))(''docker'' := None)
   \<and> map_of (Marshal_AppManifest mm (WithMetadata a None))
       = (map_of (Marshal_AppManifest mm a))(''metadata'' := None)
   \<and> Marshal_AppManifest mm (WithAppManifestProcess a p)
       = (''name'', YString (Name a)) # omitempty (take 13 (AppManifest_fields mm a))
         @ omitempty (AppManifestProcess_fields p)" by simp
  show ?thesis
    by (intro conjI [OF AppManifest_fields_keys [of mm a]]
        conjI [OF Marshal_AppManifest_keys [of mm a]]
        conjI [OF Marshal_AppManifest_distinct [of mm a]] conjI [OF q]) (rule sp)
qed


theorem AppManifest_presence_markers_witness:
  "map fst (Marshal_AppManifest example_marshal_Metadata example_minimal)
   = [''name'', ''buildpacks'', ''no-route'', ''stack'', ''memory'']
   \<and> ''no-route'' \<in> fst ` set (Marshal_AppManifest example_marshal_Metadata example_minimal)
   \<and> ''path'' \<notin> fst ` set (Marshal_AppManifest example_marshal_Metadata example_minimal)
   \<and> map_of (Marshal_AppManifest example_marshal_Metadata (WithNoRoute example_minimal False))
        ''no-route'' = Some (YBool False)
   \<and> Marshal_Manifest example_marshal_Metadata \<lparr>Version = [], Applications = [Some example_minimal]\<rparr>
   = YMap [(''applications'',
            YSeq [YMap [(''name'', YString ''spring-music''),
                        (''buildpacks'', YSeq [YString ''java_buildpack_offline'']),
                        (''no-route'', YBool True),
                        (''stack'', YString ''cflinuxfs3''),
                        (''memory'', YString ''1G'')]])]"
proof -
  note T = AppManifest_presence_markers [where mm = example_marshal_Metadata
      and a = example_minimal and b = False]
  have f: "AppManifest_fields example_marshal_Metadata example_minimal =
     [(''path'', None), (''buildpacks'', Some (YSeq [YString ''java_buildpack_offline''])),
      (''docker'', None), (''env'', None), (''random-route'', None),
      (''no-route'', Some (YBool True)), (''default-route'', None), (''routes'', None),
      (''services'', None), (''sidecars'', None), (''processes'', None),
      (''stack'', Some (YString ''cflinuxfs3'')), (''metadata'', None), (''type'', None),
      (''command'', None), (''disk_quota'', None), (''health-check-type'', None),
      (''health-check-http-endpoint'', None), (''health-check-invocation-timeout'', None),
      (''instances'', None), (''log-rate-limit-per-second'', None),
      (''memory'', Some (YString ''1G'')), (''timeout'', None)]"
    by (simp add: AppManifest_fields_def AppManifestProcess_fields_def example_minimal_def
        NewAppManifest_def emptyAppManifestProcess_def WithStack_def WithNoRoute_def promoted_def
        WithMemory_def WithBuildpacks_def YStrings_def)
  from T have k: "map fst (Marshal_AppManifest example_marshal_Metadata example_minimal)
     = ''name'' # map fst (filter (\<lambda>(k, v). v \<noteq> None)
                     (AppManifest_fields example_marshal_Metadata example_minimal))"
    by blast
  then have 1: "map fst (Marshal_AppManifest example_marshal_Metadata example_minimal)
   = [''name'', ''buildpacks'', ''no-route'', ''stack'', ''memory'']"
    unfolding f by simp
  from T have b: "\<forall>(k, v) \<in> set (AppManifest_fields example_marshal_Metadata example_minimal).
         (k \<in> fst ` set (Marshal_AppManifest example_marshal_Metadata example_minimal)) = (v \<noteq> None)"
    by blast
  have "(''no-route'', Some (YBool True))
          \<in> set (AppManifest_fields example_marshal_Metadata example_minimal)"
    and "(''path'', None) \<in> set (AppManifest_fields example_marshal_Metadata example_minimal)"
    unfolding f by simp_all
  with b have 2: "''no-route'' \<in> fst ` set (Marshal_AppManifest example_marshal_Metadata example_minimal)"
    and 3: "''path'' \<notin> fst ` set (Marshal_AppManifest example_marshal_Metadata example_minimal)"
    by blast+
  from T have "map_of (Marshal_AppManifest example_marshal_Metadata (WithNoRoute example_minimal False))
       = (map_of (Marshal_AppManifest example_marshal_Metadata example_minimal))(''no-route'' \<mapsto> YBool False)"
    by blast
  then have 4: "map_of (Marshal_AppManifest example_marshal_Metadata (WithNoRoute example_minimal False))
        ''no-route'' = Some (YBool False)"
    by simp
  have n: "Name example_minimal = ''spring-music''"
    by (simp add: example_minimal_def NewAppManifest_def WithStack_def WithNoRoute_def
        promoted_def WithBuildpacks_def)
  have m: "Marshal_AppManifest example_marshal_Metadata example_minimal
           = [(''name'', YString ''spring-music''),
              (''buildpacks'', YSeq [YString ''java_buildpack_offline'']),
              (''no-route'', YBool True),
              (''stack'', YString ''cflinuxfs3''),
              (''memory'', YString ''1G'')]"
    unfolding Marshal_AppManifest_def f n
    by (simp add: omitempty_def List.map_filter_simps)
  have 5: "Marshal_Manifest example_marshal_Metadata \<lparr>Version = [], Applications = [Some example_minimal]\<rparr>
   = YMap [(''applications'',
            YSeq [YMap [(''name'', YString ''spring-music''),
                        (''buildpacks'', YSeq [YString ''java_buildpack_offline'']),
                        (''no-route'', YBool True),
                        (''stack'', YString ''cflinuxfs3''),
                        (''memory'', YString ''1G'')]])]"
    by (simp add: Marshal_Manifest_def m)
  from 1 2 3 4 5 show ?thesis by blast
qed

text \<open>
  C9 as stated fails: \<^verbatim>\<open>WithDocker(nil)\<close> leaves its own field nil, so the key
  \<^verbatim>\<open>docker\<close> of a manifest that had one is no longer written; and
  \<^verbatim>\<open>WithAppManifestProcess\<close> with an empty process makes the attribute \<^verbatim>\<open>memory\<close> nil
  again.
\<close>

theorem WithDocker_nil_clears_field:
  "Docker (WithDocker (NewAppManifest ''app'' :: unit AppManifest) (Some example_docker))
   = Some example_docker
   \<and> Docker (WithDocker (WithDocker (NewAppManifest ''app'' :: unit AppManifest)
                (Some example_docker)) None) = None
   \<and> map fst (Marshal_AppManifest example_marshal_Metadata
               (WithDocker (WithDocker (NewAppManifest ''app'') (Some example_docker)) None))
     = [''name'']
   \<and> Memory (Inline_AppManifestProcess example_minimal) = Some ''1G''
   \<and> Memory (Inline_AppManifestProcess
               (WithAppManifestProcess example_minimal emptyAppManifestProcess)) = None"
  by (simp add: WithDocker_def NewAppManifest_def Marshal_AppManifest_def AppManifest_fields_def
      AppManifestProcess_fields_def emptyAppManifestProcess_def omitempty_def
      List.map_filter_simps example_minimal_def WithStack_def WithNoRoute_def promoted_def
      WithMemory_def WithBuildpacks_def WithAppManifestProcess_def)

subsection \<open>The push orchestrator\<close>











end
